theory Spec2Isabelle
  imports Complex_Main "HOL-Library.Multiset" "HOL-Library.Code_Target_Nat"
begin

section \<open>Python values\<close>

subsection \<open>Strings\<close>

text \<open>
  A Python \<open>str\<close> is a sequence of Unicode code points, so it is modelled as a list of
  natural numbers (the value of \<open>ord\<close> at each position).  \<open>str_of\<close> embeds an ASCII
  literal.  The case mapping and the character classes of \<open>re\<close> (\<open>\d\<close>, \<open>\w\<close>)
  are modelled on ASCII; whitespace follows \<open>str.isspace\<close> on all code points.
\<close>

type_synonym pystr = "nat list"

definition str_of :: "string \<Rightarrow> pystr" where
  "str_of s = map of_char s"

definition is_space :: "nat \<Rightarrow> bool" where
  "is_space c \<longleftrightarrow>
     (9 \<le> c \<and> c \<le> 13) \<or> (28 \<le> c \<and> c \<le> 32) \<or> c = 133 \<or> c = 160 \<or> c = 5760 \<or>
     (8192 \<le> c \<and> c \<le> 8202) \<or> c = 8232 \<or> c = 8233 \<or> c = 8239 \<or> c = 8287 \<or> c = 12288"

definition is_digit :: "nat \<Rightarrow> bool" where
  "is_digit c \<longleftrightarrow> 48 \<le> c \<and> c \<le> 57"

definition is_upper :: "nat \<Rightarrow> bool" where
  "is_upper c \<longleftrightarrow> 65 \<le> c \<and> c \<le> 90"

definition is_lower :: "nat \<Rightarrow> bool" where
  "is_lower c \<longleftrightarrow> 97 \<le> c \<and> c \<le> 122"

definition is_alpha :: "nat \<Rightarrow> bool" where
  "is_alpha c \<longleftrightarrow> is_upper c \<or> is_lower c"

definition is_word :: "nat \<Rightarrow> bool" where
  "is_word c \<longleftrightarrow> is_alpha c \<or> is_digit c \<or> c = 95"

definition upper_char :: "nat \<Rightarrow> nat" where
  "upper_char c = (if is_lower c then c - 32 else c)"

definition lower_char :: "nat \<Rightarrow> nat" where
  "lower_char c = (if is_upper c then c + 32 else c)"

definition py_upper :: "pystr \<Rightarrow> pystr" where
  "py_upper s = map upper_char s"

definition py_lower :: "pystr \<Rightarrow> pystr" where
  "py_lower s = map lower_char s"

text \<open>\<open>s.startswith(p)\<close>\<close>

fun startswith :: "pystr \<Rightarrow> pystr \<Rightarrow> bool" where
  "startswith s [] = True"
| "startswith [] (p # ps) = False"
| "startswith (c # cs) (p # ps) = (c = p \<and> startswith cs ps)"

text \<open>\<open>sub in s\<close>\<close>

fun py_in :: "pystr \<Rightarrow> pystr \<Rightarrow> bool" where
  "py_in sub [] = (sub = [])"
| "py_in sub (c # cs) = (startswith (c # cs) sub \<or> py_in sub cs)"

text \<open>\<open>s.strip()\<close>\<close>

definition py_lstrip :: "pystr \<Rightarrow> pystr" where
  "py_lstrip s = dropWhile is_space s"

definition py_rstrip :: "pystr \<Rightarrow> pystr" where
  "py_rstrip s = rev (dropWhile is_space (rev s))"

definition py_strip :: "pystr \<Rightarrow> pystr" where
  "py_strip s = py_rstrip (py_lstrip s)"

text \<open>\<open>s.replace(a, b)\<close> for one-character \<open>a\<close> and \<open>b\<close>\<close>

definition replace_char :: "nat \<Rightarrow> nat \<Rightarrow> pystr \<Rightarrow> pystr" where
  "replace_char a b s = map (\<lambda>c. if c = a then b else c) s"

text \<open>\<open>s.count(sub)\<close> for a non-empty \<open>sub\<close>: the occurrences that do not overlap.
  \<open>skip\<close> counts the characters of the last occurrence still to pass.\<close>

fun count_from :: "pystr \<Rightarrow> nat \<Rightarrow> pystr \<Rightarrow> nat" where
  "count_from sub skip [] = 0"
| "count_from sub skip (c # cs) =
     (if skip > 0 then count_from sub (skip - 1) cs
      else if startswith (c # cs) sub then 1 + count_from sub (length sub - 1) cs
      else count_from sub 0 cs)"

definition py_count :: "pystr \<Rightarrow> pystr \<Rightarrow> nat" where
  "py_count sub s = count_from sub 0 s"

text \<open>\<open>s.split(d)\<close> for a one-character separator: always at least one piece.\<close>

fun split_on :: "nat \<Rightarrow> pystr \<Rightarrow> pystr list" where
  "split_on d [] = [[]]"
| "split_on d (c # cs) =
     (if c = d then [] # split_on d cs
      else (case split_on d cs of
              [] \<Rightarrow> [[c]]
            | w # ws \<Rightarrow> (c # w) # ws))"

text \<open>\<open>s.split()\<close>: the maximal runs of characters that are not whitespace.
  \<open>w\<close> is the run being read.\<close>

fun split_ws :: "pystr \<Rightarrow> pystr \<Rightarrow> pystr list" where
  "split_ws w [] = (if w = [] then [] else [w])"
| "split_ws w (c # cs) =
     (if is_space c then (if w = [] then split_ws [] cs else w # split_ws [] cs)
      else split_ws (w @ [c]) cs)"

definition py_split :: "pystr \<Rightarrow> pystr list" where
  "py_split s = split_ws [] s"

text \<open>\<open>sep.join(parts)\<close>\<close>

fun py_join :: "pystr \<Rightarrow> pystr list \<Rightarrow> pystr" where
  "py_join sep [] = []"
| "py_join sep [p] = p"
| "py_join sep (p # ps) = p @ sep @ py_join sep ps"

text \<open>\<open>s.isdigit()\<close>, \<open>s.isalpha()\<close>: every character, and at least one.\<close>

definition py_isdigit :: "pystr \<Rightarrow> bool" where
  "py_isdigit s \<longleftrightarrow> s \<noteq> [] \<and> list_all is_digit s"

definition py_isalpha :: "pystr \<Rightarrow> bool" where
  "py_isalpha s \<longleftrightarrow> s \<noteq> [] \<and> list_all is_alpha s"

text \<open>\<open>s.zfill(2)\<close>: zeros on the left, after a leading sign.\<close>

definition zfill2 :: "pystr \<Rightarrow> pystr" where
  "zfill2 s =
     (case s of
        [] \<Rightarrow> [48, 48]
      | [c] \<Rightarrow> if c = 43 \<or> c = 45 then [c, 48] else [48, c]
      | _ \<Rightarrow> s)"

text \<open>\<open>any(k in s for k in keywords)\<close>\<close>

definition any_in :: "string list \<Rightarrow> pystr \<Rightarrow> bool" where
  "any_in keywords s = list_ex (\<lambda>k. py_in (str_of k) s) keywords"

subsection \<open>Floats\<close>

text \<open>
  A Python \<open>float\<close> is modelled as an exact rational or one of the three special values.
  Finite arithmetic is exact: the rounding of IEEE doubles (and overflow to infinity) is
  not part of the model.
\<close>

datatype pyfloat = Fin rat | PInf | NInf | NaN

fun fgt :: "pyfloat \<Rightarrow> pyfloat \<Rightarrow> bool" where
  "fgt NaN _ = False"
| "fgt _ NaN = False"
| "fgt (Fin a) (Fin b) = (a > b)"
| "fgt PInf PInf = False"
| "fgt PInf _ = True"
| "fgt NInf _ = False"
| "fgt (Fin a) PInf = False"
| "fgt (Fin a) NInf = True"

definition flt :: "pyfloat \<Rightarrow> pyfloat \<Rightarrow> bool" where
  "flt a b = fgt b a"

text \<open>\<open>a == b\<close> on floats: \<open>nan\<close> equals nothing.\<close>

definition feq :: "pyfloat \<Rightarrow> pyfloat \<Rightarrow> bool" where
  "feq a b \<longleftrightarrow> a = b \<and> a \<noteq> NaN"

fun fneg :: "pyfloat \<Rightarrow> pyfloat" where
  "fneg (Fin a) = Fin (- a)"
| "fneg PInf = NInf"
| "fneg NInf = PInf"
| "fneg NaN = NaN"

fun fadd :: "pyfloat \<Rightarrow> pyfloat \<Rightarrow> pyfloat" where
  "fadd NaN _ = NaN"
| "fadd _ NaN = NaN"
| "fadd (Fin a) (Fin b) = Fin (a + b)"
| "fadd PInf NInf = NaN"
| "fadd NInf PInf = NaN"
| "fadd PInf _ = PInf"
| "fadd NInf _ = NInf"
| "fadd (Fin a) b = b"

definition fsub :: "pyfloat \<Rightarrow> pyfloat \<Rightarrow> pyfloat" where
  "fsub a b = fadd a (fneg b)"

definition fsign :: "pyfloat \<Rightarrow> int" where
  "fsign a = (if fgt a (Fin 0) then 1 else if fgt (Fin 0) a then - 1 else 0)"

fun fmul :: "pyfloat \<Rightarrow> pyfloat \<Rightarrow> pyfloat" where
  "fmul NaN _ = NaN"
| "fmul _ NaN = NaN"
| "fmul (Fin a) (Fin b) = Fin (a * b)"
| "fmul a b =
     (if fsign a * fsign b > 0 then PInf else if fsign a * fsign b < 0 then NInf else NaN)"

text \<open>
  \<open>a / b\<close>.  Python raises \<open>ZeroDivisionError\<close> when \<open>b\<close> is zero; every division in
  the extractors is guarded by \<open>b > 0\<close>, and the model gives \<open>nan\<close> there.
\<close>

fun fdiv :: "pyfloat \<Rightarrow> pyfloat \<Rightarrow> pyfloat" where
  "fdiv NaN _ = NaN"
| "fdiv _ NaN = NaN"
| "fdiv (Fin a) (Fin b) = (if b = 0 then NaN else Fin (a / b))"
| "fdiv (Fin a) _ = Fin 0"
| "fdiv a (Fin b) = (if fsign a * (if b < 0 then - 1 else 1) > 0 then PInf else NInf)"
| "fdiv _ _ = NaN"

fun fabs :: "pyfloat \<Rightarrow> pyfloat" where
  "fabs (Fin a) = Fin \<bar>a\<bar>"
| "fabs NaN = NaN"
| "fabs _ = PInf"

section \<open>Regular expressions\<close>

text \<open>
  The fragment of Python's \<open>re\<close> that the source uses: character classes, quantifiers on
  a single character class (greedy or lazy), concatenation, alternation, capturing groups
  and the end anchor.  Matching is by backtracking with Python's priorities: the first
  alternative first, a greedy quantifier long first, a lazy one short first.
\<close>

datatype atom = Lit nat | Digit | Word | Space | Range nat nat | Dot

fun atom_match :: "atom \<Rightarrow> nat \<Rightarrow> bool" where
  "atom_match (Lit x) c = (c = x)"
| "atom_match Digit c = is_digit c"
| "atom_match Word c = is_word c"
| "atom_match Space c = is_space c"
| "atom_match (Range lo hi) c = (lo \<le> c \<and> c \<le> hi)"
| "atom_match Dot c = (c \<noteq> 10)"

text \<open>A character class \<open>[...]\<close> is the list of its members.\<close>

definition cls_match :: "atom list \<Rightarrow> nat \<Rightarrow> bool" where
  "cls_match as c = list_ex (\<lambda>a. atom_match a c) as"

datatype rx =
    Eps
  | One "atom list"
  | Rep "atom list" nat "nat option" bool
  | Cat rx rx
  | Or rx rx
  | Grp rx
  | Eol

text \<open>
  \<open>rep as lo hi greedy s k\<close>: match between \<open>lo\<close> and \<open>hi\<close> characters of the class at the
  head of \<open>s\<close>, then continue with \<open>k\<close> on the rest.
\<close>

fun rep :: "atom list \<Rightarrow> nat \<Rightarrow> nat option \<Rightarrow> bool \<Rightarrow> pystr \<Rightarrow> (pystr \<Rightarrow> 'r option) \<Rightarrow> 'r option" where
  "rep as lo hi g [] k = (if lo = 0 then k [] else None)"
| "rep as lo hi g (c # cs) k =
     (if cls_match as c \<and> hi \<noteq> Some 0 then
        (if lo > 0 then rep as (lo - 1) (map_option (\<lambda>h. h - 1) hi) g cs k
         else if g then
           (case rep as 0 (map_option (\<lambda>h. h - 1) hi) g cs k of
              Some r \<Rightarrow> Some r
            | None \<Rightarrow> k (c # cs))
         else
           (case k (c # cs) of
              Some r \<Rightarrow> Some r
            | None \<Rightarrow> rep as 0 (map_option (\<lambda>h. h - 1) hi) g cs k))
      else if lo = 0 then k (c # cs) else None)"

text \<open>
  \<open>rmatch r s caps k\<close>: match \<open>r\<close> at the head of \<open>s\<close>; \<open>caps\<close> are the texts of the groups
  closed so far.
\<close>

fun rmatch :: "rx \<Rightarrow> pystr \<Rightarrow> pystr list \<Rightarrow> (pystr \<Rightarrow> pystr list \<Rightarrow> 'r option) \<Rightarrow> 'r option" where
  "rmatch Eps s caps k = k s caps"
| "rmatch (One as) s caps k =
     (case s of [] \<Rightarrow> None | c # cs \<Rightarrow> if cls_match as c then k cs caps else None)"
| "rmatch (Rep as lo hi g) s caps k = rep as lo hi g s (\<lambda>t. k t caps)"
| "rmatch (Cat r1 r2) s caps k = rmatch r1 s caps (\<lambda>t caps'. rmatch r2 t caps' k)"
| "rmatch (Or r1 r2) s caps k =
     (case rmatch r1 s caps k of Some r \<Rightarrow> Some r | None \<Rightarrow> rmatch r2 s caps k)"
| "rmatch (Grp r) s caps k =
     rmatch r s caps (\<lambda>t caps'. k t (caps' @ [take (length s - length t) s]))"
| "rmatch Eol s caps k = (if s = [] \<or> s = [10] then k s caps else None)"

text \<open>The result of a match: the text before it, the matched text, its groups, the rest.\<close>

record rmatched =
  m_before :: pystr
  m_text :: pystr
  m_groups :: "pystr list"
  m_rest :: pystr

text \<open>\<open>re.match(r, s)\<close>\<close>

definition re_match :: "rx \<Rightarrow> pystr \<Rightarrow> rmatched option" where
  "re_match r s =
     rmatch r s [] (\<lambda>t caps. Some \<lparr>m_before = [], m_text = take (length s - length t) s,
                                    m_groups = caps, m_rest = t\<rparr>)"

text \<open>\<open>re.search(r, s)\<close>: the leftmost match.\<close>

fun re_search_from :: "rx \<Rightarrow> pystr \<Rightarrow> pystr \<Rightarrow> rmatched option" where
  "re_search_from r pre [] =
     (case re_match r [] of Some m \<Rightarrow> Some (m\<lparr>m_before := pre\<rparr>) | None \<Rightarrow> None)"
| "re_search_from r pre (c # cs) =
     (case re_match r (c # cs) of
        Some m \<Rightarrow> Some (m\<lparr>m_before := pre\<rparr>)
      | None \<Rightarrow> re_search_from r (pre @ [c]) cs)"

definition re_search :: "rx \<Rightarrow> pystr \<Rightarrow> rmatched option" where
  "re_search r s = re_search_from r [] s"

text \<open>\<open>m.group(i)\<close> for \<open>i \<ge> 1\<close>\<close>

definition m_group :: "nat \<Rightarrow> rmatched \<Rightarrow> pystr" where
  "m_group i m = m_groups m ! (i - 1)"

text \<open>
  \<open>re.sub(r, repl, s)\<close> for a replacement without group references: every
  non-overlapping match, left to right.
\<close>

fun re_sub :: "rx \<Rightarrow> pystr \<Rightarrow> pystr \<Rightarrow> pystr" where
  "re_sub r repl [] = (case re_match r [] of Some m \<Rightarrow> repl | None \<Rightarrow> [])"
| "re_sub r repl (c # cs) =
     (case re_match r (c # cs) of
        None \<Rightarrow> c # re_sub r repl cs
      | Some m \<Rightarrow>
          if length (m_rest m) < length (c # cs) then repl @ re_sub r repl (m_rest m)
          else repl @ c # re_sub r repl cs)"

text \<open>\<open>re.findall(r, s)\<close> for a pattern without groups: the texts of the matches.\<close>

fun re_findall :: "rx \<Rightarrow> pystr \<Rightarrow> pystr list" where
  "re_findall r [] = (case re_match r [] of Some m \<Rightarrow> [m_text m] | None \<Rightarrow> [])"
| "re_findall r (c # cs) =
     (case re_match r (c # cs) of
        None \<Rightarrow> re_findall r cs
      | Some m \<Rightarrow>
          if length (m_rest m) < length (c # cs) then m_text m # re_findall r (m_rest m)
          else m_text m # re_findall r cs)"

text \<open>A literal piece of a pattern, and the usual abbreviations.\<close>

fun lit :: "pystr \<Rightarrow> rx" where
  "lit [] = Eps"
| "lit [c] = One [Lit c]"
| "lit (c # cs) = Cat (One [Lit c]) (lit cs)"

fun cat :: "rx list \<Rightarrow> rx" where
  "cat [] = Eps"
| "cat [r] = r"
| "cat (r # rs) = Cat r (cat rs)"

fun alt :: "rx list \<Rightarrow> rx" where
  "alt [] = Eps"
| "alt [r] = r"
| "alt (r # rs) = Or r (alt rs)"

definition rx_star :: "atom list \<Rightarrow> rx" where
  "rx_star as = Rep as 0 None True"

definition rx_plus :: "atom list \<Rightarrow> rx" where
  "rx_plus as = Rep as 1 None True"

definition rx_opt :: "atom list \<Rightarrow> rx" where
  "rx_opt as = Rep as 0 (Some 1) True"

definition rx_times :: "atom list \<Rightarrow> nat \<Rightarrow> nat \<Rightarrow> rx" where
  "rx_times as lo hi = Rep as lo (Some hi) True"

section \<open>Value-parsing utilities\<close>

text \<open>The exceptions that the modelled code can raise.\<close>

datatype py_error = ValueError | AttributeError | IndexError | TypeError

subsection \<open>The built-in \<open>float\<close> on strings\<close>

text \<open>
  \<open>float(s)\<close> strips whitespace and accepts an optional sign followed by \<open>inf\<close>,
  \<open>infinity\<close> or \<open>nan\<close> in any case, or by a decimal number: digits with single
  underscores between them, an optional point, an optional exponent.  Anything else
  raises \<open>ValueError\<close>, and no other exception is raised on a string.  The digits are
  the ASCII digits, and the value of a decimal number is the exact rational.
\<close>

fun digits_tail :: "pystr \<Rightarrow> nat list \<times> pystr" where
  "digits_tail [] = ([], [])"
| "digits_tail [c] = (if is_digit c then ([c - 48], []) else ([], [c]))"
| "digits_tail (c # d # cs) =
     (if is_digit c then (case digits_tail (d # cs) of (ds, r) \<Rightarrow> ((c - 48) # ds, r))
      else if c = 95 \<and> is_digit d then (case digits_tail cs of (ds, r) \<Rightarrow> ((d - 48) # ds, r))
      else ([], c # d # cs))"

text \<open>\<open>digitpart ::= digit (["_"] digit)*\<close>\<close>

definition digitpart :: "pystr \<Rightarrow> (nat list \<times> pystr) option" where
  "digitpart s =
     (case s of
        [] \<Rightarrow> None
      | c # cs \<Rightarrow>
          if is_digit c then (case digits_tail cs of (ds, r) \<Rightarrow> Some ((c - 48) # ds, r))
          else None)"

definition nat_of_digits :: "nat list \<Rightarrow> nat" where
  "nat_of_digits ds = foldl (\<lambda>a d. 10 * a + d) 0 ds"

text \<open>\<open>number ::= [digitpart] "." digitpart | digitpart ["."]\<close>: the digits before and
  after the point, and the rest.\<close>

definition parse_number :: "pystr \<Rightarrow> (nat list \<times> nat list \<times> pystr) option" where
  "parse_number s =
     (case digitpart s of
        Some (ip, r) \<Rightarrow>
          (if r \<noteq> [] \<and> hd r = 46 then
             (case digitpart (tl r) of
                Some (fp, r') \<Rightarrow> Some (ip, fp, r')
              | None \<Rightarrow> Some (ip, [], tl r))
           else Some (ip, [], r))
      | None \<Rightarrow>
          (if s \<noteq> [] \<and> hd s = 46 then
             (case digitpart (tl s) of
                Some (fp, r') \<Rightarrow> Some ([], fp, r')
              | None \<Rightarrow> None)
           else None))"

text \<open>\<open>exponent ::= ("e" | "E") ["+" | "-"] digitpart\<close>, optional: the exponent and
  the rest, or \<open>None\<close> when an \<open>e\<close> is not followed by an exponent.\<close>

definition parse_exponent :: "pystr \<Rightarrow> (int \<times> pystr) option" where
  "parse_exponent s =
     (if s \<noteq> [] \<and> (hd s = 101 \<or> hd s = 69) then
        (let r = tl s;
             neg = (r \<noteq> [] \<and> hd r = 45);
             r' = (if r \<noteq> [] \<and> (hd r = 43 \<or> hd r = 45) then tl r else r)
         in case digitpart r' of
              Some (ds, rest) \<Rightarrow>
                Some (if neg then - int (nat_of_digits ds) else int (nat_of_digits ds), rest)
            | None \<Rightarrow> None)
      else Some (0, s))"

definition pow10 :: "int \<Rightarrow> rat" where
  "pow10 e = (if e \<ge> 0 then 10 ^ nat e else 1 / 10 ^ nat (- e))"

definition py_float :: "pystr \<Rightarrow> py_error + pyfloat" where
  "py_float s =
     (let t = py_strip s;
          neg = (t \<noteq> [] \<and> hd t = 45);
          u = (if t \<noteq> [] \<and> (hd t = 43 \<or> hd t = 45) then tl t else t);
          l = py_lower u
      in
      if l = str_of ''inf'' \<or> l = str_of ''infinity'' then Inr (if neg then NInf else PInf)
      else if l = str_of ''nan'' then Inr NaN
      else
        (case parse_number u of
           None \<Rightarrow> Inl ValueError
         | Some (ip, fp, r) \<Rightarrow>
             (case parse_exponent r of
                None \<Rightarrow> Inl ValueError
              | Some (e, r') \<Rightarrow>
                  if r' \<noteq> [] then Inl ValueError
                  else
                    (let m = of_nat (nat_of_digits ip) +
                             of_nat (nat_of_digits fp) / 10 ^ length fp;
                         v = m * pow10 e
                     in Inr (Fin (if neg then - v else v))))))"

subsection \<open>\<open>PortfolioExtractor.clean_currency_value\<close>\<close>

text \<open>
  A table cell is a string or \<open>None\<close>.  \<open>pd.isna\<close> is true of \<open>None\<close> and false of every
  string.  The pattern is the character class of the rupee sign U+20B9 (code point
  8377), the dollar sign (36), the comma (44) and \<open>\s\<close>.  \<open>except ValueError\<close> catches that error only.
\<close>

definition currency_noise :: rx where
  "currency_noise = One [Lit 8377, Lit 36, Lit 44, Space]"

definition clean_currency_value :: "pystr option \<Rightarrow> py_error + pyfloat" where
  "clean_currency_value value_str =
     (case value_str of
        None \<Rightarrow> Inr (Fin 0)
      | Some s \<Rightarrow>
          if s = [] \<or> py_strip s = str_of ''-'' \<or> py_strip s = [] then Inr (Fin 0)
          else
            (let cleaned = re_sub currency_noise [] s in
             case py_float cleaned of
               Inr v \<Rightarrow> Inr v
             | Inl e \<Rightarrow> if e = ValueError then Inr (Fin 0) else Inl e))"

text \<open>
  The value that a call \<open>self.clean_currency_value(cell)\<close> returns.  The call never
  raises (lemma \<open>clean_currency_value_returns\<close> below), so the extractors use the value
  directly.
\<close>

definition currency_value :: "pystr option \<Rightarrow> pyfloat" where
  "currency_value cell = (case clean_currency_value cell of Inr v \<Rightarrow> v | Inl e \<Rightarrow> Fin 0)"

subsection \<open>\<open>PortfolioExtractor.parse_date\<close>\<close>

definition month_map :: "pystr \<Rightarrow> pystr option" where
  "month_map = map_of (map (\<lambda>(k, v). (str_of k, str_of v))
     [(''jan'', ''01''), (''feb'', ''02''), (''mar'', ''03''), (''apr'', ''04''),
      (''may'', ''05''), (''jun'', ''06''), (''jul'', ''07''), (''aug'', ''08''),
      (''sep'', ''09''), (''oct'', ''10''), (''nov'', ''11''), (''dec'', ''12'')])"

text \<open>\<open>month_map.get(month.lower()[:3], '01')\<close>\<close>

definition month_number :: "pystr \<Rightarrow> pystr" where
  "month_number month =
     (case month_map (take 3 (py_lower month)) of Some m \<Rightarrow> m | None \<Rightarrow> str_of ''01'')"

text \<open>\<open>r'(\d{2})/(\d{2})/(\d{4})'\<close>, \<open>r'(\d{1,2})\s+(\w+)\s+(\d{4})'\<close>,
  \<open>r'(\d{4})-(\d{2})-(\d{2})'\<close>\<close>

definition date_patterns :: "rx list" where
  "date_patterns =
     [cat [Grp (rx_times [Digit] 2 2), One [Lit 47], Grp (rx_times [Digit] 2 2), One [Lit 47],
           Grp (rx_times [Digit] 4 4)],
      cat [Grp (rx_times [Digit] 1 2), rx_plus [Space], Grp (rx_plus [Word]), rx_plus [Space],
           Grp (rx_times [Digit] 4 4)],
      cat [Grp (rx_times [Digit] 4 4), One [Lit 45], Grp (rx_times [Digit] 2 2), One [Lit 45],
           Grp (rx_times [Digit] 2 2)]]"

text \<open>
  The loop over the patterns returns at the first pattern that matches: every pattern
  has three groups, and both branches under the test return.
\<close>

fun parse_date_loop :: "rx list \<Rightarrow> pystr \<Rightarrow> pystr" where
  "parse_date_loop [] date_str = date_str"
| "parse_date_loop (pattern # patterns) date_str =
     (case re_search pattern date_str of
        None \<Rightarrow> parse_date_loop patterns date_str
      | Some m \<Rightarrow>
          if py_in (str_of ''-'') date_str then take 10 date_str
          else
            (let day = m_group 1 m; month = m_group 2 m; year = m_group 3 m;
                 month' = (if py_isalpha month then month_number month else month)
             in year @ str_of ''-'' @ zfill2 month' @ str_of ''-'' @ zfill2 day))"

definition parse_date :: "pystr \<Rightarrow> pystr" where
  "parse_date date_str = (if date_str = [] then [] else parse_date_loop date_patterns date_str)"

section \<open>The holding record\<close>

text \<open>
  \<open>standard_schema\<close> of \<open>PortfolioExtractor\<close>: every extractor copies it and fills the
  fields.  \<open>raw_data\<close> is a dictionary of provenance values; \<open>potential_duplicate\<close> is the
  extra key that only the Kotak extractor adds.
\<close>

datatype rawval =
    RStr pystr
  | RNum pyfloat
  | RInt int
  | RNums "pyfloat list"
  | RRow "pystr option list"

record holding =
  manager_name :: pystr
  asset_type :: pystr
  asset_name :: pystr
  current_investment_value :: pyfloat
  current_market_value :: pyfloat
  value_as_of_date :: pystr
  pl_amount :: pyfloat
  pl_percentage :: pyfloat
  irr_percentage :: pyfloat
  investment_date :: pystr
  raw_data :: "(pystr \<times> rawval) list"
  potential_duplicate :: "pystr list option"

definition standard_schema :: holding where
  "standard_schema =
     \<lparr>manager_name = [], asset_type = [], asset_name = [],
      current_investment_value = Fin 0, current_market_value = Fin 0,
      value_as_of_date = [], pl_amount = Fin 0, pl_percentage = Fin 0,
      irr_percentage = Fin 0, investment_date = [], raw_data = [],
      potential_duplicate = None\<rparr>"

section \<open>Source documents\<close>

text \<open>
  What the extractors read from an opened PDF: the pages in order, and for each page the
  text of \<open>extract_text()\<close> and the tables of \<open>extract_tables()\<close>.  A table is a list of
  rows, a row a list of cells, a cell a string or \<open>None\<close>.  Opening the file is outside
  the model.
\<close>

type_synonym cell = "pystr option"

record page =
  page_text :: pystr
  page_tables :: "cell list list list"

text \<open>The truth value of a cell: neither \<open>None\<close> nor the empty string.\<close>

definition truthy :: "cell \<Rightarrow> bool" where
  "truthy c \<longleftrightarrow> c \<noteq> None \<and> c \<noteq> Some []"

text \<open>\<open>str(cell)\<close>\<close>

definition str_cell :: "cell \<Rightarrow> pystr" where
  "str_cell c = (case c of None \<Rightarrow> str_of ''None'' | Some s \<Rightarrow> s)"

text \<open>\<open>str(row[0]).strip() if row[0] else ''\<close>\<close>

definition cell_text :: "cell \<Rightarrow> pystr" where
  "cell_text c = (if truthy c then py_strip (str_cell c) else [])"

text \<open>\<open>P&L\<close> as every extractor that recomputes it does:
  \<open>(pl_amount / investment) * 100\<close> under the guard \<open>investment > 0\<close>, else the
  schema's \<open>0.0\<close>.\<close>

definition pl_percent :: "pyfloat \<Rightarrow> pyfloat \<Rightarrow> pyfloat" where
  "pl_percent pl investment =
     (if fgt investment (Fin 0) then fmul (fdiv pl investment) (Fin 100) else Fin 0)"

section \<open>The Kotak extractor\<close>

subsection \<open>\<open>_classify_kotak_asset_type\<close>\<close>

definition Kotak_classify_kotak_asset_type :: "pystr \<Rightarrow> pystr \<Rightarrow> pystr" where
  "Kotak_classify_kotak_asset_type category instrument_name =
     (let category_upper = (if category \<noteq> [] then py_upper category else []);
          instrument_upper = py_upper instrument_name
      in
      if py_in (str_of ''AIF'') instrument_upper \<or> py_in (str_of ''CLASS A1'') instrument_upper
      then str_of ''AIF''
      else if py_in (str_of ''MUTUAL FUNDS'') category_upper \<or>
              py_in (str_of ''FUND'') instrument_upper
      then str_of ''Mutual Funds''
      else if py_in (str_of ''BONDS'') category_upper \<or> py_in (str_of ''NCD'') instrument_upper \<or>
              py_in (str_of ''BD'') instrument_upper
      then str_of ''Bonds''
      else if py_in (str_of ''DIRECT EQUITY'') category_upper \<or>
              py_in (str_of ''LTD'') instrument_upper
      then str_of ''Direct Equity''
      else if py_in (str_of ''BANK'') category_upper \<or> py_in (str_of ''CASH'') category_upper
      then str_of ''Cash/Bank''
      else str_of ''Other'')"

subsection \<open>\<open>_check_for_duplicates\<close>\<close>

text \<open>The pieces of a pattern such as \<open>r'ACCURACAP.*ALPHA'\<close>, joined by \<open>.*\<close>.\<close>

fun dot_star_between :: "string list \<Rightarrow> rx" where
  "dot_star_between [] = Eps"
| "dot_star_between [w] = lit (str_of w)"
| "dot_star_between (w # ws) = Cat (lit (str_of w)) (Cat (rx_star [Dot]) (dot_star_between ws))"

definition duplicate_patterns :: "(rx \<times> pystr) list" where
  "duplicate_patterns =
     [(dot_star_between [''ALTACURA'', ''AI'', ''ABSOLUTE'', ''RETURN'', ''FUND''],
         str_of ''Client Associates''),
      (dot_star_between [''ASK'', ''GROWTH'', ''INDIA'', ''FUND''], str_of ''Client Associates''),
      (dot_star_between [''WHITE'', ''OAK'', ''INDIA'', ''EQUITY'', ''FUND''],
         str_of ''Client Associates''),
      (dot_star_between [''ACCURACAP'', ''ALPHA''], str_of ''Client Associates''),
      (dot_star_between [''WHITE'', ''SPACE'', ''ALPHA'', ''FUND''], str_of ''Client Associates'')]"

definition Kotak_check_for_duplicates :: "pystr \<Rightarrow> pystr list" where
  "Kotak_check_for_duplicates instrument_name =
     map snd (filter (\<lambda>(pattern, manager). re_search pattern (py_upper instrument_name) \<noteq> None)
                     duplicate_patterns)"

subsection \<open>\<open>_is_numeric_string\<close>\<close>

text \<open>\<open>r'[,\s\<dots>\-]'\<close>: comma, whitespace, rupee sign, hyphen.\<close>

definition Kotak_is_numeric_string :: "pystr \<Rightarrow> bool" where
  "Kotak_is_numeric_string s \<longleftrightarrow>
     s \<noteq> [] \<and>
     (let cleaned = re_sub (One [Lit 44, Space, Lit 8377, Lit 45]) [] s
      in py_isdigit (filter (\<lambda>c. c \<noteq> 46) cleaned) \<and> length cleaned > 2)"

subsection \<open>\<open>_extract_holding_from_row\<close>\<close>

text \<open>The first loop: \<open>holding_cost\<close> and \<open>market_value\<close> by column position.\<close>

fun kotak_scan :: "nat \<Rightarrow> cell list \<Rightarrow> pyfloat \<times> pyfloat \<Rightarrow> pyfloat \<times> pyfloat" where
  "kotak_scan i [] st = st"
| "kotak_scan i (cell # cells) (holding_cost, market_value) =
     (if truthy cell then
        (let value = currency_value cell in
         kotak_scan (i + 1) cells
           (if fgt value (Fin 10000) then
              (if i \<ge> 2 \<and> feq holding_cost (Fin 0) then (value, market_value)
               else if i \<ge> 4 \<and> feq market_value (Fin 0) then (holding_cost, value)
               else (holding_cost, market_value))
            else (holding_cost, market_value)))
      else kotak_scan (i + 1) cells (holding_cost, market_value))"

text \<open>The second loop: every amount above 10000, in row order.\<close>

definition kotak_amounts :: "cell list \<Rightarrow> pyfloat list" where
  "kotak_amounts row =
     filter (\<lambda>value. fgt value (Fin 10000)) (map currency_value (filter truthy row))"

text \<open>\<open>r'\d{1,2}/\d{1,2}/\d{2,4}'\<close>, \<open>r'\d{1,2}-\d{1,2}-\d{2,4}'\<close>,
  \<open>r'\d{1,2}\.\d{1,2}\.\d{2,4}'\<close>\<close>

definition kotak_date_patterns :: "rx list" where
  "kotak_date_patterns =
     map (\<lambda>sep. cat [rx_times [Digit] 1 2, One [Lit sep], rx_times [Digit] 1 2, One [Lit sep],
                      rx_times [Digit] 2 4]) [47, 45, 46]"

definition kotak_fallback_date :: "cell list \<Rightarrow> int \<Rightarrow> pystr" where
  "kotak_fallback_date row purchase_date_col =
     (if purchase_date_col \<ge> 0 \<and> purchase_date_col < int (length row) \<and>
         truthy (row ! nat purchase_date_col)
      then
        (let cell_str = py_strip (str_cell (row ! nat purchase_date_col)) in
         if list_ex (\<lambda>pattern. re_match pattern cell_str \<noteq> None) kotak_date_patterns
         then parse_date cell_str else [])
      else [])"

definition Kotak_extract_holding_from_row ::
  "pystr \<Rightarrow> cell list \<Rightarrow> pystr \<Rightarrow> pystr \<Rightarrow> int \<Rightarrow> int \<Rightarrow> pystr \<Rightarrow> holding option" where
  "Kotak_extract_holding_from_row instrument_name row category report_date page_num
       purchase_date_col inv_date =
     (let (holding_cost0, market_value0) = kotak_scan 0 row (Fin 0, Fin 0);
          amounts = kotak_amounts row;
          retry = (feq holding_cost0 (Fin 0) \<or> feq market_value0 (Fin 0)) \<and> length amounts \<ge> 2;
          holding_cost = (if retry then amounts ! 0 else holding_cost0);
          market_value = (if retry then amounts ! 1 else market_value0)
      in
      if fgt holding_cost (Fin 0) \<and> fgt market_value (Fin 0) then
        (let atype = Kotak_classify_kotak_asset_type category instrument_name;
             bonds = (atype = str_of ''Bonds'')
         in Some (standard_schema
              \<lparr>manager_name := str_of ''Kotak'',
               asset_type := atype,
               asset_name := py_strip instrument_name,
               current_investment_value := holding_cost,
               current_market_value := (if bonds then holding_cost else market_value),
               value_as_of_date := report_date,
               pl_amount := (if bonds then Fin 0 else fsub market_value holding_cost),
               pl_percentage :=
                 (if bonds then Fin 0 else pl_percent (fsub market_value holding_cost) holding_cost),
               investment_date :=
                 (if inv_date \<noteq> [] then inv_date
                  else kotak_fallback_date row purchase_date_col),
               raw_data :=
                 [(str_of ''category'', RStr category), (str_of ''page'', RInt page_num),
                  (str_of ''raw_row'', RRow row),
                  (str_of ''instrument_name'', RStr instrument_name)],
               potential_duplicate := Some (Kotak_check_for_duplicates instrument_name)\<rparr>))
      else None)"

subsection \<open>\<open>_extract_investment_dates_from_text\<close>\<close>

text \<open>\<open>r'(Txn\.|Asset|Seg\.)\s*\d{1,2}/\d{1,2}/\d{2,4}'\<close> and
  \<open>r'(?:Txn\.|Asset|Seg\.)\s*(\d{1,2}/\d{1,2}/\d{2,4})'\<close>\<close>

definition slash_date :: rx where
  "slash_date = cat [rx_times [Digit] 1 2, One [Lit 47], rx_times [Digit] 1 2, One [Lit 47],
                     rx_times [Digit] 2 4]"

definition txn_words :: rx where
  "txn_words = alt [lit (str_of ''Txn.''), lit (str_of ''Asset''), lit (str_of ''Seg.'')]"

definition txn_line_pattern :: rx where
  "txn_line_pattern = cat [Grp txn_words, rx_star [Space], slash_date]"

definition txn_date_pattern :: rx where
  "txn_date_pattern = cat [txn_words, rx_star [Space], Grp slash_date]"

text \<open>\<open>line.startswith((p1, p2, ...))\<close>\<close>

definition startswith_any :: "pystr \<Rightarrow> string list \<Rightarrow> bool" where
  "startswith_any s ps = list_ex (\<lambda>p. startswith s (str_of p)) ps"

definition is_potential_instrument :: "pystr \<Rightarrow> bool" where
  "is_potential_instrument line \<longleftrightarrow>
     length line > 8 \<and>
     any_in [''FUND'', ''GROWTH'', ''LTD'', ''LIMITED'', ''NCD'', ''BD'', ''CORPORATION'',
             ''SERVICES'', ''BANK'', ''SCHEME''] (py_upper line) \<and>
     \<not> startswith_any line [''Txn.'', ''Asset'', ''Seg.'', ''Total''] \<and>
     \<not> list_ex is_digit (take 10 line) \<and>
     line \<notin> set (map str_of [''Direct Equity'', ''E-Retail/E-Commerce'', ''LIFE INSURANCE'',
                               ''PRIVATE SECTOR BANK'', ''COMPUTERS - SOFTWARE & CONSULTING''])"

text \<open>The loop over the lines; \<open>current_instrument\<close> is \<open>None\<close> or a line.\<close>

fun kotak_dates_loop ::
  "pystr list \<Rightarrow> (pystr \<rightharpoonup> pystr) \<Rightarrow> pystr option \<Rightarrow> (pystr \<rightharpoonup> pystr)" where
  "kotak_dates_loop [] investment_dates current_instrument = investment_dates"
| "kotak_dates_loop (l # ls) investment_dates current_instrument =
     (let line = py_strip l in
      if is_potential_instrument line then
        kotak_dates_loop ls investment_dates (Some (py_strip line))
      else if (startswith_any line [''Txn.'', ''Asset'', ''Seg.''] \<or>
               re_search txn_line_pattern line \<noteq> None) \<and>
              current_instrument \<noteq> None \<and> current_instrument \<noteq> Some []
      then
        (case re_search txn_date_pattern line of
           Some m \<Rightarrow>
             kotak_dates_loop ls
               (investment_dates(the current_instrument \<mapsto> parse_date (m_group 1 m))) None
         | None \<Rightarrow> kotak_dates_loop ls investment_dates None)
      else kotak_dates_loop ls investment_dates current_instrument)"

definition Kotak_extract_investment_dates_from_text :: "pystr \<Rightarrow> (pystr \<rightharpoonup> pystr)" where
  "Kotak_extract_investment_dates_from_text text =
     (if text = [] then Map.empty else kotak_dates_loop (split_on 10 text) Map.empty None)"

subsection \<open>\<open>KotakExtractor.extract\<close>\<close>

text \<open>The index of the first element that satisfies a test (a loop that breaks there).\<close>

fun first_index :: "('a \<Rightarrow> bool) \<Rightarrow> 'a list \<Rightarrow> nat option" where
  "first_index P [] = None"
| "first_index P (x # xs) =
     (if P x then Some 0 else map_option Suc (first_index P xs))"

definition kotak_is_header_row :: "cell list \<Rightarrow> bool" where
  "kotak_is_header_row row \<longleftrightarrow>
     row \<noteq> [] \<and>
     list_ex (\<lambda>cell. truthy cell \<and> py_in (str_of ''Instrument Name'') (str_cell cell)) row"

definition kotak_is_purchase_cell :: "cell \<Rightarrow> bool" where
  "kotak_is_purchase_cell cell \<longleftrightarrow>
     (let cell_str = (if truthy cell then py_upper (str_cell cell) else []) in
      (py_in (str_of ''FIRST'') cell_str \<and> py_in (str_of ''PURCHASE'') cell_str) \<or>
      py_in (str_of ''PURCHASE DATE'') cell_str)"

text \<open>The sub-header rows after the header: the first row with a purchase-date cell
  gives \<open>purchase_date_col\<close>; without one it stays \<open>-1\<close>.\<close>

fun kotak_purchase_date_col :: "cell list list \<Rightarrow> int" where
  "kotak_purchase_date_col [] = - 1"
| "kotak_purchase_date_col (next_row # rows) =
     (if next_row \<noteq> [] then
        (case first_index kotak_is_purchase_cell next_row of
           Some col_idx \<Rightarrow> int col_idx
         | None \<Rightarrow> kotak_purchase_date_col rows)
      else kotak_purchase_date_col rows)"

text \<open>\<open>header_found\<close> and \<open>purchase_date_col\<close>: \<open>None\<close> when no header row is among
  the first five rows.\<close>

definition kotak_header :: "cell list list \<Rightarrow> int option" where
  "kotak_header table =
     (case first_index kotak_is_header_row (take 5 table) of
        None \<Rightarrow> None
      | Some row_idx \<Rightarrow> Some (kotak_purchase_date_col (take 2 (drop (row_idx + 1) table))))"

definition kotak_skip_name :: "pystr \<Rightarrow> bool" where
  "kotak_skip_name instrument_name \<longleftrightarrow>
     instrument_name = [] \<or>
     py_in (str_of ''Instrument Name'') instrument_name \<or>
     py_in (str_of ''Bal. No. Of'') instrument_name \<or>
     py_in (str_of ''Total'') instrument_name \<or>
     py_in (str_of ''Category'') instrument_name \<or>
     instrument_name \<in> set [str_of ''-'', []]"

definition kotak_numeric_cells :: "cell list \<Rightarrow> bool" where
  "kotak_numeric_cells cells \<longleftrightarrow>
     list_ex (\<lambda>cell. Kotak_is_numeric_string (str_cell cell)) (filter truthy cells)"

definition kotak_is_valid_instrument :: "pystr \<Rightarrow> bool" where
  "kotak_is_valid_instrument instrument_name \<longleftrightarrow>
     (let is_transaction_ref =
            (startswith (py_upper instrument_name) (str_of ''INE0TLC'') \<or>
             (length instrument_name < 15 \<and>
              startswith (py_upper instrument_name) (str_of ''INE'')))
      in instrument_name \<noteq> [] \<and> length instrument_name > 10 \<and> \<not> is_transaction_ref)"

text \<open>
  The end of the loop body, for a row that passed the name tests: the choice of
  \<open>numeric_row\<close> (\<open>table[row_idx + 1]\<close> is the head of \<open>rest\<close>), the call of
  \<open>_extract_holding_from_row\<close> and the test before \<open>holdings.append\<close>.
\<close>

definition kotak_candidate ::
  "pystr \<Rightarrow> int \<Rightarrow> int \<Rightarrow> (pystr \<rightharpoonup> pystr) \<Rightarrow> pystr \<Rightarrow> cell list \<Rightarrow> cell list list \<Rightarrow>
   pystr \<Rightarrow> holding list" where
  "kotak_candidate report_date page_num purchase_date_col investment_dates instrument_name
       row rest current_category =
     (let numeric_row =
            (if kotak_numeric_cells (tl row) then Some row
             else if rest \<noteq> [] \<and> hd rest \<noteq> [] \<and> kotak_numeric_cells (hd rest)
             then Some (hd rest) else None)
      in
      if numeric_row \<noteq> None \<and> kotak_is_valid_instrument instrument_name then
        (case Kotak_extract_holding_from_row instrument_name (the numeric_row)
                current_category report_date page_num purchase_date_col
                (case investment_dates instrument_name of Some d \<Rightarrow> d | None \<Rightarrow> [])
         of
           Some h \<Rightarrow> if fgt (current_market_value h) (Fin 1000) then [h] else []
         | None \<Rightarrow> [])
      else [])"

text \<open>
  The loop over the rows of a table with a header.  The argument list holds the rows
  from \<open>row_idx\<close> on.
\<close>

fun kotak_rows ::
  "pystr \<Rightarrow> int \<Rightarrow> int \<Rightarrow> (pystr \<rightharpoonup> pystr) \<Rightarrow> cell list list \<Rightarrow> pystr \<Rightarrow> holding list" where
  "kotak_rows report_date page_num purchase_date_col investment_dates [] current_category = []"
| "kotak_rows report_date page_num purchase_date_col investment_dates (row # rest)
       current_category =
     (if row = [] then
        kotak_rows report_date page_num purchase_date_col investment_dates rest current_category
      else if kotak_skip_name (cell_text (hd row)) then
        kotak_rows report_date page_num purchase_date_col investment_dates rest current_category
      else if any_in [''MUTUAL FUNDS'', ''DIRECT EQUITY'', ''OTHER PRODUCTS'', ''BONDS'',
                      ''BANK ACCOUNTS''] (py_upper (cell_text (hd row))) then
        kotak_rows report_date page_num purchase_date_col investment_dates rest
          (cell_text (hd row))
      else if Kotak_is_numeric_string (cell_text (hd row)) \<or>
              length (filter (\<lambda>c. c \<noteq> 44 \<and> c \<noteq> 46) (cell_text (hd row))) < 5 then
        kotak_rows report_date page_num purchase_date_col investment_dates rest current_category
      else
        kotak_candidate report_date page_num purchase_date_col investment_dates
          (cell_text (hd row)) row rest current_category @
        kotak_rows report_date page_num purchase_date_col investment_dates rest current_category)"

definition kotak_table ::
  "pystr \<Rightarrow> int \<Rightarrow> (pystr \<rightharpoonup> pystr) \<Rightarrow> cell list list \<Rightarrow> holding list" where
  "kotak_table report_date page_num investment_dates table =
     (if table = [] \<or> length table < 3 then []
      else
        (case kotak_header table of
           None \<Rightarrow> []
         | Some purchase_date_col \<Rightarrow>
             kotak_rows report_date page_num purchase_date_col investment_dates table []))"

definition kotak_page :: "nat \<times> page \<Rightarrow> holding list" where
  "kotak_page = (\<lambda>(page_num, pg).
     (let text = page_text pg in
      if page_num < 4 then []
      else if \<not> any_in [''HOLDING STATEMENT'', ''INSTRUMENT NAME'', ''MARKET VALUE'',
                         ''HOLDING COST'', ''UNREALISED'', ''EQUITY'', ''FUND'', ''MUTUAL FUNDS'']
                        (py_upper text) then []
      else if (py_in (str_of ''PORTFOLIO ACTIVITY'') (py_upper text) \<or>
               py_in (str_of ''Activity Date'') text) \<or>
              py_in (str_of ''Returns are based on XIRR'') text then []
      else
        concat (map (kotak_table (str_of ''2025-08-31'') (int page_num + 1)
                       (Kotak_extract_investment_dates_from_text text))
                    (page_tables pg))))"

definition Kotak_extract :: "page list \<Rightarrow> holding list" where
  "Kotak_extract pages = concat (map kotak_page (enumerate 0 pages))"

section \<open>The IND Money extractor\<close>

subsection \<open>\<open>parse_date_from_period\<close>\<close>

text \<open>\<open>r'([A-Z]+)\s*-\s*(\d{4})'\<close>\<close>

definition period_pattern :: rx where
  "period_pattern =
     cat [Grp (rx_plus [Range 65 90]), rx_star [Space], One [Lit 45], rx_star [Space],
          Grp (rx_times [Digit] 4 4)]"

definition period_month_map :: "pystr \<Rightarrow> pystr option" where
  "period_month_map = map_of (map (\<lambda>(k, v). (str_of k, str_of v))
     [(''JANUARY'', ''01''), (''FEBRUARY'', ''02''), (''MARCH'', ''03''), (''APRIL'', ''04''),
      (''MAY'', ''05''), (''JUNE'', ''06''), (''JULY'', ''07''), (''AUGUST'', ''08''),
      (''SEPTEMBER'', ''09''), (''OCTOBER'', ''10''), (''NOVEMBER'', ''11''),
      (''DECEMBER'', ''12'')])"

definition parse_date_from_period :: "pystr \<Rightarrow> pystr" where
  "parse_date_from_period period_str =
     (if period_str = [] then []
      else
        (case re_search period_pattern (py_upper period_str) of
           None \<Rightarrow> []
         | Some m \<Rightarrow>
             (let month_name = m_group 1 m; year = m_group 2 m;
                  month_num = (case period_month_map (py_upper month_name) of
                                 Some n \<Rightarrow> n | None \<Rightarrow> str_of ''12'');
                  day = (if month_num \<in> set (map str_of [''01'', ''03'', ''05'', ''07'', ''08'',
                                                            ''10'', ''12'']) then str_of ''31''
                         else if month_num \<in> set (map str_of [''04'', ''06'', ''09'', ''11''])
                         then str_of ''30''
                         else str_of ''28'')
              in year @ str_of ''-'' @ month_num @ str_of ''-'' @ day)))"

subsection \<open>The currency converter\<close>

text \<open>
  The attributes of a \<open>CurrencyConverter\<close> object: the three set by \<open>__init__\<close> and the
  six methods of the class.  A call of any other name raises \<open>AttributeError\<close>.
  \<open>rates\<close> stands for the exchange rate that a lookup for a report date would give.
\<close>

definition CurrencyConverter_attributes :: "pystr list" where
  "CurrencyConverter_attributes =
     map str_of [''cache_file'', ''cache'', ''api_base'', ''load_cache'', ''save_cache'',
                 ''is_cache_valid'', ''get_exchange_rate'', ''convert_amount'',
                 ''format_currency'']"

text \<open>\<open>self.currency_converter.get_usd_to_inr_rate(report_date)\<close>\<close>

definition call_get_usd_to_inr_rate :: "(pystr \<Rightarrow> pyfloat) \<Rightarrow> pystr \<Rightarrow> py_error + pyfloat" where
  "call_get_usd_to_inr_rate rates report_date =
     (if str_of ''get_usd_to_inr_rate'' \<in> set CurrencyConverter_attributes
      then Inr (rates report_date)
      else Inl AttributeError)"

subsection \<open>\<open>INDMoneyExtractor.extract\<close>\<close>

text \<open>\<open>r'Monthly Statement Period:\s*([A-Z]+\s*-\s*\d{4})'\<close>\<close>

definition statement_period_pattern :: rx where
  "statement_period_pattern =
     cat [lit (str_of ''Monthly Statement Period:''), rx_star [Space],
          Grp (cat [rx_plus [Range 65 90], rx_star [Space], One [Lit 45], rx_star [Space],
                    rx_times [Digit] 4 4])]"

definition ind_report_date :: "page list \<Rightarrow> pystr" where
  "ind_report_date pages =
     (if length pages > 0 then
        (case re_search statement_period_pattern (page_text (hd pages)) of
           Some period_match \<Rightarrow> parse_date_from_period (m_group 1 period_match)
         | None \<Rightarrow> [])
      else [])"

text \<open>The loop over the columns of a row: \<open>market_value_usd\<close> and \<open>cost_basis_usd\<close>.\<close>

fun ind_scan :: "nat \<Rightarrow> cell list \<Rightarrow> pyfloat \<times> pyfloat \<Rightarrow> pyfloat \<times> pyfloat" where
  "ind_scan col_idx [] st = st"
| "ind_scan col_idx (cell # cells) (market_value_usd, cost_basis_usd) =
     (if truthy cell then
        (let value = currency_value cell;
             market_value_usd' =
               (if fgt value (Fin 100) \<and> col_idx \<ge> 3 \<and>
                   (feq market_value_usd (Fin 0) \<or> col_idx = 4)
                then value else market_value_usd);
             cost_basis_usd' =
               (if fgt value (Fin 100) \<and> col_idx \<ge> 6 \<and>
                   (feq cost_basis_usd (Fin 0) \<or> col_idx = 7)
                then value else cost_basis_usd)
         in ind_scan (col_idx + 1) cells (market_value_usd', cost_basis_usd'))
      else ind_scan (col_idx + 1) cells (market_value_usd, cost_basis_usd))"

text \<open>The body of the loop over the data rows.\<close>

definition ind_row ::
  "pyfloat \<Rightarrow> pystr \<Rightarrow> (pystr \<rightharpoonup> pystr) \<Rightarrow> nat \<Rightarrow> nat \<Rightarrow> nat \<times> cell list \<Rightarrow> holding list" where
  "ind_row exchange_rate report_date holding_dates page_num table_idx = (\<lambda>(row_idx, row).
     if row = [] \<or> length row < 5 then []
     else
       (let symbol = cell_text (row ! 0);
            description = (if length row > 1 \<and> truthy (row ! 1) then py_strip (str_cell (row ! 1))
                           else [])
        in
        if symbol = [] \<or> startswith symbol (str_of ''*'') \<or> symbol = str_of ''Symbol'' \<or>
           symbol \<in> set [str_of ''Total'', str_of ''Grand Total'']
        then []
        else
          (let (market_value_usd, cost_basis_usd) = ind_scan 0 row (Fin 0, Fin 0);
               market = fmul market_value_usd exchange_rate;
               investment = fmul cost_basis_usd exchange_rate;
               h = standard_schema
                 \<lparr>manager_name := str_of ''IND Money'',
                  asset_type := str_of ''US Stocks'',
                  asset_name := symbol @ str_of '' - '' @ take 30 description,
                  current_investment_value := investment,
                  current_market_value := market,
                  value_as_of_date := report_date,
                  pl_amount := fsub market investment,
                  pl_percentage := pl_percent (fsub market investment) investment,
                  investment_date := (case holding_dates symbol of Some d \<Rightarrow> d | None \<Rightarrow> []),
                  raw_data :=
                    [(str_of ''symbol'', RStr symbol),
                     (str_of ''market_value_usd'', RNum market_value_usd),
                     (str_of ''cost_basis_usd'', RNum cost_basis_usd),
                     (str_of ''exchange_rate'', RNum exchange_rate),
                     (str_of ''page'', RInt (int page_num + 1)),
                     (str_of ''table_index'', RInt (int table_idx)),
                     (str_of ''row_index'', RInt (int row_idx))]\<rparr>
           in if fgt (current_market_value h) (Fin 0) then [h] else [])))"

definition ind_is_header_row :: "cell list \<Rightarrow> bool" where
  "ind_is_header_row row \<longleftrightarrow>
     row \<noteq> [] \<and> list_ex (\<lambda>cell. py_in (str_of ''Symbol'') (str_cell cell)) (filter truthy row)"

definition ind_table ::
  "pyfloat \<Rightarrow> pystr \<Rightarrow> (pystr \<rightharpoonup> pystr) \<Rightarrow> nat \<Rightarrow> nat \<times> cell list list \<Rightarrow> holding list" where
  "ind_table exchange_rate report_date holding_dates page_num = (\<lambda>(table_idx, table).
     if table = [] \<or> length table < 3 then []
     else
       (case first_index ind_is_header_row (take 3 table) of
          None \<Rightarrow> []
        | Some header_row_idx \<Rightarrow>
            concat (map (ind_row exchange_rate report_date holding_dates page_num table_idx)
                        (enumerate (header_row_idx + 1) (drop (header_row_idx + 1) table)))))"

definition ind_page ::
  "pyfloat \<Rightarrow> pystr \<Rightarrow> (pystr \<rightharpoonup> pystr) \<Rightarrow> nat \<times> page \<Rightarrow> holding list" where
  "ind_page exchange_rate report_date holding_dates = (\<lambda>(page_num, pg).
     (let text = page_text pg in
      if \<not> any_in [''HOLDINGS'', ''SYMBOL'', ''MARKET PRICE'', ''COST BASIS'', ''QUANTITY'',
                    ''PORTFOLIO'', ''STOCK'', ''SHARES'', ''USD'', ''UNREALIZED'']
                   (py_upper text) then []
      else if py_in (str_of ''SUMMARY'') (py_upper text) \<and>
              \<not> py_in (str_of ''DETAILED'') (py_upper text) \<and>
              py_count (str_of ''Total'') text > 2 then []
      else
        concat (map (ind_table exchange_rate report_date holding_dates page_num)
                    (enumerate 0 (page_tables pg)))))"

text \<open>The loop over the pages, once \<open>exchange_rate\<close> is known.\<close>

definition ind_pages ::
  "pyfloat \<Rightarrow> pystr \<Rightarrow> (pystr \<rightharpoonup> pystr) \<Rightarrow> page list \<Rightarrow> holding list" where
  "ind_pages exchange_rate report_date holding_dates pages =
     concat (map (ind_page exchange_rate report_date holding_dates) (enumerate 0 pages))"

text \<open>
  \<open>extract\<close>: \<open>holding_dates\<close> is the dictionary read from the optional Excel file
  (empty without one).  An exception anywhere in the body is caught by the outer
  \<open>except Exception\<close>, which returns the empty list.
\<close>

definition INDMoney_extract ::
  "(pystr \<Rightarrow> pyfloat) \<Rightarrow> (pystr \<rightharpoonup> pystr) \<Rightarrow> page list \<Rightarrow> holding list" where
  "INDMoney_extract rates holding_dates pages =
     (let report_date = ind_report_date pages in
      case call_get_usd_to_inr_rate rates report_date of
        Inl e \<Rightarrow> []
      | Inr exchange_rate \<Rightarrow> ind_pages exchange_rate report_date holding_dates pages)"

section \<open>The Motilal Oswal extractor\<close>

subsection \<open>\<open>parse_date_from_text\<close>\<close>

text \<open>The method is the same in \<open>MotilalOswalExtractor\<close> and \<open>IIFL360OneExtractor\<close>;
  the pattern is \<open>r'(\d{1,2})\s+(\w+)\s+(\d{4})'\<close>.\<close>

definition parse_date_from_text :: "pystr \<Rightarrow> pystr" where
  "parse_date_from_text text =
     (if text = [] then []
      else
        (case re_search (date_patterns ! 1) text of
           Some m \<Rightarrow>
             m_group 3 m @ str_of ''-'' @ month_number (m_group 2 m) @ str_of ''-'' @
             zfill2 (m_group 1 m)
         | None \<Rightarrow> []))"

definition first_page_date :: "page list \<Rightarrow> pystr" where
  "first_page_date pages =
     (if length pages > 0 then parse_date_from_text (page_text (hd pages)) else [])"

subsection \<open>\<open>extract_direct_equity\<close>\<close>

definition mo_equity_row :: "pystr \<Rightarrow> cell list \<Rightarrow> holding list" where
  "mo_equity_row report_date row =
     (if row = [] \<or> length row < 10 then []
      else
        (let sector = cell_text (row ! 0); security = cell_text (row ! 1);
             isin = cell_text (row ! 2)
         in
         if security = [] \<or> py_in (str_of ''Total'') security \<or> isin = [] \<or>
            security = str_of ''-''
         then []
         else
           (let investment = (if length row > 11 then currency_value (row ! 11) else Fin 0);
                market = (if length row > 13 then currency_value (row ! 13) else Fin 0);
                h = standard_schema
                  \<lparr>manager_name := str_of ''Motilal Oswal'',
                   asset_type := str_of ''Direct Equity'',
                   asset_name := security,
                   current_investment_value := investment,
                   current_market_value := market,
                   value_as_of_date := report_date,
                   pl_amount := fsub market investment,
                   pl_percentage := pl_percent (fsub market investment) investment,
                   raw_data :=
                     [(str_of ''sector'', RStr sector), (str_of ''isin'', RStr isin),
                      (str_of ''page'', RStr (str_of ''Direct Equity''))]\<rparr>
            in if fgt (current_market_value h) (Fin 0) then [h] else [])))"

definition header_has :: "string \<Rightarrow> cell list \<Rightarrow> bool" where
  "header_has w header = list_ex (\<lambda>cell. py_in (str_of w) (str_cell cell)) (filter truthy header)"

definition mo_equity_table :: "pystr \<Rightarrow> cell list list \<Rightarrow> holding list" where
  "mo_equity_table report_date table =
     (if table = [] \<or> length table < 2 then []
      else if header_has ''ISIN'' (hd table) then
        concat (map (mo_equity_row report_date) (tl table))
      else [])"

definition Motilal_extract_direct_equity :: "page \<Rightarrow> pystr \<Rightarrow> holding list" where
  "Motilal_extract_direct_equity pg report_date =
     concat (map (mo_equity_table report_date) (page_tables pg))"

subsection \<open>\<open>extract_aif_holdings\<close>\<close>

definition mo_aif_row :: "pystr \<Rightarrow> cell list \<Rightarrow> holding list" where
  "mo_aif_row report_date row =
     (if row = [] \<or> length row < 8 then []
      else
        (let category = cell_text (row ! 0); instrument = cell_text (row ! 1);
             asset_class = cell_text (row ! 3)
         in
         if instrument = [] \<or> py_in (str_of ''Total'') category \<or> asset_class = [] \<or>
            instrument = str_of ''-''
         then []
         else
           (let investment = (if length row > 5 then currency_value (row ! 5) else Fin 0);
                market = (if length row > 6 then currency_value (row ! 6) else Fin 0);
                h = standard_schema
                  \<lparr>manager_name := str_of ''Motilal Oswal'',
                   asset_type := str_of ''AIF'',
                   asset_name := instrument,
                   current_investment_value := investment,
                   current_market_value := market,
                   value_as_of_date := report_date,
                   pl_amount := fsub market investment,
                   pl_percentage := pl_percent (fsub market investment) investment,
                   raw_data :=
                     [(str_of ''category'', RStr category),
                      (str_of ''xirr'',
                         RNum (if length row > 11 then currency_value (row ! 11) else Fin 0)),
                      (str_of ''page'', RStr (str_of ''AIF''))]\<rparr>
            in if fgt (current_market_value h) (Fin 0) then [h] else [])))"

definition mo_aif_table :: "pystr \<Rightarrow> cell list list \<Rightarrow> holding list" where
  "mo_aif_table report_date table =
     (if table = [] \<or> length table < 2 then []
      else if header_has ''Instrument'' (hd table) then
        concat (map (mo_aif_row report_date) (tl table))
      else [])"

definition Motilal_extract_aif_holdings :: "page \<Rightarrow> pystr \<Rightarrow> holding list" where
  "Motilal_extract_aif_holdings pg report_date =
     concat (map (mo_aif_table report_date) (page_tables pg))"

subsection \<open>\<open>MotilalOswalExtractor.extract\<close>\<close>

definition mo_page :: "pystr \<Rightarrow> nat \<times> page \<Rightarrow> holding list" where
  "mo_page report_date = (\<lambda>(page_num, pg).
     (let text = page_text pg;
          has_equity_keywords =
            any_in [''DIRECT EQUITY'', ''EQUITY HOLDING'', ''ISIN'', ''SECTOR'', ''SECURITY'',
                    ''MARKET VALUE'', ''INVESTMENT VALUE'', ''UNREALIZED''] (py_upper text);
          has_aif_keywords =
            any_in [''AIF'', ''ALTERNATIVE INVESTMENT'', ''INSTRUMENT'', ''ASSET CLASS'',
                    ''PORTFOLIO MANAGEMENT'', ''FUND MANAGER'', ''XIRR''] (py_upper text)
      in
      if page_num < 2 then []
      else if \<not> has_equity_keywords \<and> \<not> has_aif_keywords then []
      else if py_in (str_of ''SUMMARY'') (py_upper text) \<and>
              \<not> py_in (str_of ''DETAILED'') (py_upper text) \<and>
              py_count (str_of ''Total'') text > 3 then []
      else
        (if has_equity_keywords then Motilal_extract_direct_equity pg report_date else []) @
        (if has_aif_keywords then Motilal_extract_aif_holdings pg report_date else [])))"

definition Motilal_extract :: "page list \<Rightarrow> holding list" where
  "Motilal_extract pages = concat (map (mo_page (first_page_date pages)) (enumerate 0 pages))"

section \<open>The Client Associates extractor\<close>

subsection \<open>The text lines of a page\<close>

text \<open>\<open>re.match(r'\d{2}/\d{2}/\d{4}', part)\<close>\<close>

definition ca_date_pattern :: rx where
  "ca_date_pattern = cat [rx_times [Digit] 2 2, One [Lit 47], rx_times [Digit] 2 2, One [Lit 47],
                          rx_times [Digit] 4 4]"

definition ca_is_date :: "pystr \<Rightarrow> bool" where
  "ca_is_date part \<longleftrightarrow> re_match ca_date_pattern part \<noteq> None"

text \<open>
  The conversion of a list of parts to floats: commas removed, a part kept when it has
  a point or is all digits, and skipped when \<open>float\<close> raises \<open>ValueError\<close>.
\<close>

definition ca_convert :: "pystr list \<Rightarrow> pyfloat list" where
  "ca_convert parts =
     concat (map (\<lambda>part.
       (let clean_part = re_sub (One [Lit 44]) [] part in
        if py_in (str_of ''.'') clean_part \<or> py_isdigit clean_part then
          (case py_float clean_part of Inr value \<Rightarrow> [value] | Inl e \<Rightarrow> [])
        else [])) parts)"

text \<open>The loop over the next three lines: the first that is purely numeric and has ten
  values.\<close>

fun ca_next_line_values :: "pystr list \<Rightarrow> pyfloat list option" where
  "ca_next_line_values [] = None"
| "ca_next_line_values (l # ls) =
     (let candidate_line = py_strip l in
      if length candidate_line < 20 \<or>
         candidate_line \<in> set (map str_of [''Jan-23'', ''23'', ''Feb-23''])
      then ca_next_line_values ls
      else if candidate_line \<noteq> [] \<and>
              list_all (\<lambda>c. is_digit c \<or> c = 46 \<or> c = 44 \<or> c = 32) candidate_line \<and>
              length (ca_convert (py_split candidate_line)) = 10
      then Some (ca_convert (py_split candidate_line))
      else ca_next_line_values ls)"

text \<open>
  The body of the loop for a line that names a fund; \<open>rest\<close> are the lines after it
  and \<open>i\<close> its index.
\<close>

definition ca_fund_line :: "pystr \<Rightarrow> nat \<Rightarrow> nat \<Rightarrow> pystr \<Rightarrow> pystr list \<Rightarrow> pystr \<Rightarrow> holding list" where
  "ca_fund_line report_date page_num i line rest current_category =
     (if any_in [''Fund'', ''AIF'', ''Alpha'', ''Growth''] line \<and> list_ex is_digit line then
        (let parts = py_split line;
             fund_name_parts = takeWhile (\<lambda>part. \<not> ca_is_date part) parts;
             date_found = list_ex ca_is_date parts
         in
         if \<not> date_found \<or> fund_name_parts = [] then []
         else
           (let inv_date = parse_date (hd (dropWhile (\<lambda>part. \<not> ca_is_date part) parts));
                fund_name = py_join (str_of '' '') fund_name_parts;
                date_index = length fund_name_parts;
                converted_values =
                  (if date_index > 0 then
                     (case ca_next_line_values (take 3 rest) of
                        Some next_line_values \<Rightarrow> next_line_values
                      | None \<Rightarrow> ca_convert (drop (date_index + 1) parts))
                   else []);
                positions = (date_index > 0 \<and> length converted_values \<ge> 5);
                total_cost = (if positions then converted_values ! 2 else Fin 0);
                market_value = (if positions then converted_values ! 4 else Fin 0);
                pl = (if positions then fsub market_value total_cost else Fin 0);
                pl_pct = (if positions then pl_percent pl total_cost else Fin 0);
                irr = (if positions \<and> length converted_values > 8 then converted_values ! 8
                       else Fin 0)
            in
            if fgt total_cost (Fin 1000) \<and> fgt market_value (Fin 1000) then
              [standard_schema
                 \<lparr>manager_name := str_of ''Client Associates'',
                  asset_type := str_of ''AIF'',
                  asset_name := fund_name,
                  current_investment_value := total_cost,
                  current_market_value := market_value,
                  value_as_of_date := report_date,
                  pl_amount := pl,
                  pl_percentage := pl_pct,
                  irr_percentage := irr,
                  investment_date := inv_date,
                  raw_data :=
                    [(str_of ''category'', RStr current_category),
                     (str_of ''line_number'', RInt (int i + 1)),
                     (str_of ''page'', RInt (int page_num + 1)),
                     (str_of ''numeric_values'', RNums converted_values),
                     (str_of ''raw_line'', RStr line),
                     (str_of ''irr_percentage'', RNum irr)]\<rparr>]
            else []))
      else [])"

text \<open>The loop over the text lines of a page.\<close>

fun ca_lines :: "pystr \<Rightarrow> nat \<Rightarrow> nat \<Rightarrow> pystr list \<Rightarrow> pystr \<Rightarrow> holding list" where
  "ca_lines report_date page_num i [] current_category = []"
| "ca_lines report_date page_num i (l # rest) current_category =
     (if py_strip l \<in> set [str_of ''Equity'', str_of ''Debt''] then
        ca_lines report_date page_num (i + 1) rest (py_strip l)
      else if py_strip l = [] \<or>
              py_strip l \<in> set [str_of ''-'', str_of ''PRIVATE AND CONFIDENTIAL''] \<or>
              py_in (str_of ''Report Date'') (py_strip l) then
        ca_lines report_date page_num (i + 1) rest current_category
      else
        ca_fund_line report_date page_num i (py_strip l) rest current_category @
        ca_lines report_date page_num (i + 1) rest current_category)"

subsection \<open>The tables of a page\<close>

text \<open>
  The body of the loop over the rows of a table with a \<open>Security\<close> header: the holdings
  to append, given the holdings collected so far.
\<close>

definition ca_table_row :: "pystr \<Rightarrow> nat \<Rightarrow> nat \<Rightarrow> nat \<times> cell list \<Rightarrow> holding list \<Rightarrow> holding list" where
  "ca_table_row report_date page_num table_idx = (\<lambda>(row_idx, row) holdings.
     if row = [] \<or> length row < 8 then []
     else
       (let security_name = cell_text (row ! 0) in
        if security_name = [] \<or>
           security_name \<in> set (map str_of [''Security'', ''Equity'', ''Debt'', ''-'',
                                             ''Equity - Total'']) \<or>
           py_in (str_of ''Date'') security_name
        then []
        else if any_in [''Fund'', ''AIF'', ''Alpha'', ''Growth''] security_name then
          (let inv_date = (if length row > 1 then parse_date (str_cell (row ! 1)) else []);
               total_cost = (if length row > 6 then currency_value (row ! 6) else Fin 0);
               market_value = (if length row > 8 then currency_value (row ! 8) else Fin 0);
               pl = (if length row > 10 then currency_value (row ! 10) else Fin 0);
               pl_pct = (if length row > 11 then currency_value (row ! 11) else Fin 0)
           in
           if fgt total_cost (Fin 1000) \<and> fgt market_value (Fin 1000) then
             (let duplicate =
                    list_ex (\<lambda>h. asset_name h = security_name \<and>
                                  flt (fabs (fsub (current_investment_value h) total_cost))
                                      (Fin 1000)) holdings
              in
              if \<not> duplicate then
                [standard_schema
                   \<lparr>manager_name := str_of ''Client Associates'',
                    asset_type := str_of ''AIF'',
                    asset_name := security_name,
                    current_investment_value := total_cost,
                    current_market_value := market_value,
                    value_as_of_date := report_date,
                    pl_amount := pl,
                    pl_percentage := pl_pct,
                    investment_date := inv_date,
                    raw_data :=
                      [(str_of ''page'', RInt (int page_num + 1)),
                       (str_of ''table_index'', RInt (int table_idx)),
                       (str_of ''row_index'', RInt (int row_idx)),
                       (str_of ''source'', RStr (str_of ''table''))]\<rparr>]
              else [])
           else [])
        else []))"

definition ca_is_header_row :: "cell list \<Rightarrow> bool" where
  "ca_is_header_row row \<longleftrightarrow>
     row \<noteq> [] \<and>
     list_ex (\<lambda>cell. truthy cell \<and> py_in (str_of ''Security'') (str_cell cell)) row"

definition ca_table :: "pystr \<Rightarrow> nat \<Rightarrow> nat \<times> cell list list \<Rightarrow> holding list \<Rightarrow> holding list" where
  "ca_table report_date page_num = (\<lambda>(table_idx, table) holdings.
     if table = [] \<or> length table < 2 then holdings
     else if \<not> list_ex ca_is_header_row (take 3 table) then holdings
     else
       fold (\<lambda>r hs. hs @ ca_table_row report_date page_num table_idx r hs)
            (enumerate 0 table) holdings)"

subsection \<open>\<open>ClientAssociatesExtractor.extract\<close>\<close>

definition ca_page :: "pystr \<Rightarrow> nat \<times> page \<Rightarrow> holding list \<Rightarrow> holding list" where
  "ca_page report_date = (\<lambda>(page_num, pg) holdings.
     (let text = page_text pg in
      if \<not> any_in [''SECURITY'', ''AIF'', ''FUND'', ''EQUITY'', ''DEBT'', ''MARKET VALUE'',
                    ''TOTAL COST'', ''UNIT COST'', ''QUANTITY'', ''IRR%'', ''G/L'']
                   (py_upper text) then holdings
      else if py_in (str_of ''RETURN (XIRR)'') text \<and> \<not> py_in (str_of ''SECURITY'') text
      then holdings
      else
        fold (ca_table report_date page_num) (enumerate 0 (page_tables pg))
             (holdings @ ca_lines report_date page_num 0 (split_on 10 text) [])))"

text \<open>\<open>r'Report Date : (\d{2}/\d{2}/\d{4})'\<close>\<close>

definition report_date_pattern :: rx where
  "report_date_pattern = Cat (lit (str_of ''Report Date : '')) (Grp ca_date_pattern)"

text \<open>With no page, \<open>pdf.pages[0]\<close> raises \<open>IndexError\<close> and the outer handler returns
  the empty list.\<close>

definition CA_extract :: "page list \<Rightarrow> holding list" where
  "CA_extract pages =
     (if pages = [] then []
      else
        (let report_date =
               (case re_search report_date_pattern (page_text (hd pages)) of
                  Some date_match \<Rightarrow> parse_date (m_group 1 date_match)
                | None \<Rightarrow> [])
         in fold (ca_page report_date) (enumerate 0 pages) []))"

section \<open>The Yes Bank extractor\<close>

definition YesBank_classify_asset_type :: "pystr \<Rightarrow> pystr \<Rightarrow> pystr" where
  "YesBank_classify_asset_type category fund_name =
     (if py_in (str_of ''Index'') category \<or> py_in (str_of ''INDEX'') (py_upper fund_name) \<or>
         py_in (str_of ''ETF'') category then str_of ''Index Funds/ETFs''
      else if py_in (str_of ''Equity'') category then str_of ''Equity Mutual Funds''
      else if py_in (str_of ''Debt'') category then str_of ''Debt Mutual Funds''
      else if py_in (str_of ''Hybrid'') category then str_of ''Hybrid Mutual Funds''
      else str_of ''Mutual Funds'')"

text \<open>\<open>r'\d+,\d+,\d+\.\d+'\<close> and
  \<open>r'\d+,\d+,\d+\.\d+.*\d+\.\d+.*\d+,\d+,\d+\.\d+'\<close>\<close>

definition amount_pattern :: rx where
  "amount_pattern =
     cat [rx_plus [Digit], One [Lit 44], rx_plus [Digit], One [Lit 44], rx_plus [Digit],
          One [Lit 46], rx_plus [Digit]]"

definition financial_line_pattern :: rx where
  "financial_line_pattern =
     cat [amount_pattern, rx_star [Dot], rx_plus [Digit], One [Lit 46], rx_plus [Digit],
          rx_star [Dot], amount_pattern]"

text \<open>
  The loop over the lines of a fund cell: the name lines collected so far, and the first
  line with financial data (where the loop breaks).
\<close>

fun yb_scan_lines :: "pystr list \<Rightarrow> pystr list \<Rightarrow> pystr list \<times> pystr option" where
  "yb_scan_lines [] fund_name_lines = (fund_name_lines, None)"
| "yb_scan_lines (line # ls) fund_name_lines =
     (if re_search financial_line_pattern line \<noteq> None then
        (fund_name_lines @ takeWhile (\<lambda>word. re_match amount_pattern word = None) (py_split line),
         Some line)
      else yb_scan_lines ls (fund_name_lines @ [py_strip line]))"

text \<open>An entry of \<open>individual_funds\<close>: name, investment, current value, raw data.\<close>

type_synonym yb_fund = "pystr \<times> pyfloat \<times> pyfloat \<times> pystr"

text \<open>The body of the loop over rows 1 and 2, on the variables \<open>fund_name\<close> and
  \<open>individual_funds\<close>.\<close>

definition yb_fund_row :: "cell list list \<Rightarrow> nat \<Rightarrow> pystr \<times> yb_fund list \<Rightarrow> pystr \<times> yb_fund list" where
  "yb_fund_row table row_idx = (\<lambda>(fund_name, individual_funds).
     if length table > row_idx \<and> table ! row_idx \<noteq> [] \<and> truthy (hd (table ! row_idx)) then
       (let fund_text = py_strip (str_cell (hd (table ! row_idx))) in
        if fund_text \<noteq> [] \<and> re_search amount_pattern fund_text \<noteq> None then
          (case yb_scan_lines (split_on 10 fund_text) [] of
             (fund_name_lines, Some financial_data) \<Rightarrow>
               (let fund_name' = py_strip (py_join (str_of '' '') fund_name_lines);
                    numbers = re_findall amount_pattern financial_data
                in
                if length numbers \<ge> 2 then
                  (fund_name',
                   individual_funds @
                     [(fund_name', currency_value (Some (numbers ! 0)),
                       currency_value (Some (numbers ! 1)), financial_data)])
                else (fund_name', individual_funds))
           | (fund_name_lines, None) \<Rightarrow> (fund_name, individual_funds))
        else (fund_name, individual_funds))
     else (fund_name, individual_funds))"

definition yb_holding ::
  "pystr \<Rightarrow> pystr \<Rightarrow> pyfloat \<Rightarrow> pyfloat \<Rightarrow> (pystr \<times> rawval) list \<Rightarrow> holding" where
  "yb_holding category fund_name investment current raw =
     standard_schema
       \<lparr>manager_name := str_of ''Yes Bank'',
        asset_type := YesBank_classify_asset_type category fund_name,
        asset_name := fund_name,
        current_investment_value := investment,
        current_market_value := current,
        value_as_of_date := str_of ''2025-08-31'',
        pl_amount := fsub current investment,
        pl_percentage := pl_percent (fsub current investment) investment,
        raw_data := raw\<rparr>"

definition yb_individual :: "pystr \<Rightarrow> nat \<Rightarrow> nat \<Rightarrow> yb_fund \<Rightarrow> holding list" where
  "yb_individual category page_num table_idx = (\<lambda>(name, investment, current, raw).
     if fgt investment (Fin 1000) \<and> fgt current (Fin 1000) then
       [yb_holding category name investment current
          [(str_of ''category'', RStr category), (str_of ''table_index'', RInt (int table_idx)),
           (str_of ''raw_financial_data'', RStr raw), (str_of ''page'', RInt (int page_num + 1))]]
     else [])"

text \<open>The simple case: the name from row 1, the amounts from the cells of row 2.\<close>

definition yb_simple :: "pystr \<Rightarrow> nat \<Rightarrow> nat \<Rightarrow> cell list list \<Rightarrow> pystr \<Rightarrow> holding list" where
  "yb_simple category page_num table_idx table fund_name0 =
     (let fund_name =
            (if length table \<ge> 2 \<and> table ! 1 \<noteq> [] \<and> truthy (hd (table ! 1)) then
               py_strip (py_join (str_of '' '')
                 (map py_strip
                    (takeWhile (\<lambda>line. re_search amount_pattern line = None)
                       (split_on 10 (py_strip (str_cell (hd (table ! 1))))))))
             else fund_name0)
      in
      if length table \<ge> 3 \<and> table ! 2 \<noteq> [] \<and> length (table ! 2) \<ge> 4 then
        (let investment_str = (if truthy (table ! 2 ! 1) then str_cell (table ! 2 ! 1) else []);
             current_value_str = (if truthy (table ! 2 ! 3) then str_cell (table ! 2 ! 3) else []);
             investment_amount = currency_value (Some investment_str);
             current_value = currency_value (Some current_value_str)
         in
         if fgt investment_amount (Fin 1000) \<and> fgt current_value (Fin 1000) \<and> fund_name \<noteq> []
         then
           [yb_holding category fund_name investment_amount current_value
              [(str_of ''category'', RStr category),
               (str_of ''table_index'', RInt (int table_idx)),
               (str_of ''investment_str'', RStr investment_str),
               (str_of ''current_value_str'', RStr current_value_str),
               (str_of ''page'', RInt (int page_num + 1))]]
         else [])
      else [])"

definition yb_table :: "nat \<Rightarrow> nat \<times> cell list list \<Rightarrow> holding list" where
  "yb_table page_num = (\<lambda>(table_idx, table).
     if table = [] \<or> length table < 2 then []
     else if \<not> list_ex (\<lambda>row. row \<noteq> [] \<and> truthy (hd row) \<and>
                 any_in [''FUND'', ''SCHEME'', ''PLAN'', ''INDEX''] (py_upper (str_cell (hd row))))
               table then []
     else
       (let category = (if hd table \<noteq> [] \<and> truthy (hd (hd table)) then cell_text (hd (hd table))
                        else []);
            (fund_name, individual_funds) = fold (yb_fund_row table) [1, 2] ([], [])
        in
        if individual_funds \<noteq> [] then
          concat (map (yb_individual category page_num table_idx) individual_funds)
        else yb_simple category page_num table_idx table fund_name))"

definition yb_page :: "nat \<times> page \<Rightarrow> holding list" where
  "yb_page = (\<lambda>(page_num, pg).
     (let text = page_text pg in
      if page_num < 5 then []
      else if \<not> any_in [''FUND'', ''SCHEME'', ''PLAN'', ''EQUITY'', ''DEBT'', ''INDEX'', ''GROWTH'',
                         ''DIVIDEND''] (py_upper text) \<and>
              \<not> any_in [''PRUDENTIAL'', ''FLEXICAP'', ''MULTICAP'', ''MIDCAP'', ''NIFTY'',
                         ''INDEX''] (py_upper text) then []
      else if py_in (str_of ''Grand Total'') text \<and> \<not> py_in (str_of ''Category/'') text \<and>
              length (split_on 10 text) < 15 \<and> py_count (str_of '','') text < 10 then []
      else concat (map (yb_table page_num) (enumerate 0 (page_tables pg)))))"

definition YesBank_extract :: "page list \<Rightarrow> holding list" where
  "YesBank_extract pages = concat (map yb_page (enumerate 0 pages))"

section \<open>The IIFL 360 One extractor\<close>

definition IIFL_classify_asset_type :: "pystr \<Rightarrow> pystr \<Rightarrow> pystr" where
  "IIFL_classify_asset_type instrument_name text_context =
     (let instrument_upper = py_upper instrument_name;
          context_upper = py_upper text_context
      in
      if py_in (str_of ''AIF'') instrument_upper \<or> py_in (str_of ''AIF'') context_upper
      then str_of ''AIF''
      else if py_in (str_of ''UNLISTED'') context_upper \<or> py_in (str_of ''UNLISTED'') instrument_upper
      then str_of ''Unlisted Equity''
      else if py_in (str_of ''MANAGED ACCOUNTS'') context_upper \<or>
              py_in (str_of ''DIVERSIFIED ALPHA'') instrument_upper
      then str_of ''AIF''
      else if py_in (str_of ''EQUITY'') context_upper \<or> py_in (str_of ''EQUITY'') instrument_upper
      then str_of ''Direct Equity''
      else if py_in (str_of ''DEBT'') context_upper \<or> py_in (str_of ''BOND'') instrument_upper
      then str_of ''Debt/Bonds''
      else str_of ''Other'')"

text \<open>
  \<open>r'^[\d,]+\.?\d*$'\<close> and \<open>r'^\d{2}-\w{3}-\d{2}$'\<close>, used with \<open>re.match\<close> (so the
  leading \<open>^\<close> adds nothing), and \<open>r'[\d,]+\.?\d*\s*%'\<close>.
\<close>

definition number_pattern :: rx where
  "number_pattern = cat [rx_plus [Digit, Lit 44], rx_opt [Lit 46], rx_star [Digit], Eol]"

definition short_date_pattern :: rx where
  "short_date_pattern =
     cat [rx_times [Digit] 2 2, One [Lit 45], rx_times [Word] 3 3, One [Lit 45],
          rx_times [Digit] 2 2, Eol]"

definition percent_pattern :: rx where
  "percent_pattern =
     cat [rx_plus [Digit, Lit 44], rx_opt [Lit 46], rx_star [Digit], rx_star [Space],
          One [Lit 37]]"

text \<open>The loop over the parts of a line: the name parts and the positive numbers.\<close>

fun iifl_parts :: "pystr list \<Rightarrow> pystr list \<times> pyfloat list \<Rightarrow> pystr list \<times> pyfloat list" where
  "iifl_parts [] st = st"
| "iifl_parts (part # parts) (instrument_name_parts, numeric_values) =
     (if re_match number_pattern part \<noteq> None then
        (let value = currency_value (Some part) in
         iifl_parts parts
           (instrument_name_parts,
            if fgt value (Fin 0) then numeric_values @ [value] else numeric_values))
      else if \<not> py_in (str_of ''%'') part \<and> re_match short_date_pattern part = None then
        iifl_parts parts (instrument_name_parts @ [part], numeric_values)
      else iifl_parts parts (instrument_name_parts, numeric_values))"

text \<open>The look-ahead over at most nine following lines, extending the name.\<close>

fun iifl_lookahead :: "pystr list \<Rightarrow> pystr \<Rightarrow> pystr" where
  "iifl_lookahead [] instrument_name = instrument_name"
| "iifl_lookahead (l # ls) instrument_name =
     (let next_line = py_strip l in
      if next_line \<noteq> [] \<and>
         any_in [''FUND'', ''MANAGER'', ''ALPHA'', ''CLASS'', ''AIF'', ''CATEGORY'', ''LIMITED'',
                 ''PRIVATE''] (py_upper next_line)
      then
        iifl_lookahead ls
          (if re_search percent_pattern next_line = None \<and> length next_line > 3
           then instrument_name @ str_of '' '' @ next_line else instrument_name)
      else if (next_line \<noteq> [] \<and> py_in (str_of ''BSE'') (py_upper next_line)) \<or>
              py_in (str_of ''INDEX'') (py_upper next_line)
      then iifl_lookahead ls (instrument_name @ str_of '' '' @ next_line)
      else if next_line = [] \<or>
              any_in [''TOTAL'', ''UNLISTED'', ''MANAGED'', ''GAIN/LOSS'', ''PRICE'']
                     (py_upper next_line)
      then instrument_name
      else iifl_lookahead ls instrument_name)"

text \<open>The body of the loop for a line with instrument data.\<close>

definition iifl_instrument_line ::
  "pystr \<Rightarrow> nat \<Rightarrow> nat \<Rightarrow> pystr \<Rightarrow> pystr list \<Rightarrow> pystr \<Rightarrow> holding list" where
  "iifl_instrument_line report_date page_num i line rest current_category =
     (if line \<noteq> [] \<and>
         any_in [''ABAKKUS'', ''DIVERSIFIED'', ''NATIONAL STOCK EXCHANGE'', ''FUND'']
                (py_upper line)
      then
        (let (instrument_name_parts, numeric_values) = iifl_parts (py_split line) ([], []);
             instrument_name =
               iifl_lookahead (take 9 rest) (py_join (str_of '' '') instrument_name_parts)
         in
         if length numeric_values \<ge> 3 then
           (let quantity = (if flt (numeric_values ! 0) (Fin 100000) then numeric_values ! 0
                            else Fin 0);
                large_amounts = filter (\<lambda>v. fgt v (Fin 100000)) numeric_values;
                holding_cost = (if length large_amounts \<ge> 2 then large_amounts ! 0 else Fin 0);
                current_value = (if length large_amounts \<ge> 2 then large_amounts ! 1 else Fin 0)
            in
            if fgt holding_cost (Fin 1000) \<and> fgt current_value (Fin 1000) \<and>
               instrument_name \<noteq> []
            then
              [standard_schema
                 \<lparr>manager_name := str_of ''IIFL 360 One'',
                  asset_type := IIFL_classify_asset_type instrument_name current_category,
                  asset_name := take 100 (py_strip instrument_name),
                  current_investment_value := holding_cost,
                  current_market_value := current_value,
                  value_as_of_date := report_date,
                  pl_amount := fsub current_value holding_cost,
                  pl_percentage := pl_percent (fsub current_value holding_cost) holding_cost,
                  raw_data :=
                    [(str_of ''category'', RStr current_category),
                     (str_of ''line_number'', RInt (int i + 1)),
                     (str_of ''quantity'', RNum quantity),
                     (str_of ''page'', RInt (int page_num + 1)),
                     (str_of ''numeric_values'', RNums numeric_values),
                     (str_of ''raw_line'', RStr line)]\<rparr>]
            else [])
         else [])
      else [])"

text \<open>The \<open>while\<close> loop over the text lines: \<open>i\<close> grows by one in every round, so the
  loop is a recursion over the lines from \<open>i\<close> on.\<close>

fun iifl_lines :: "pystr \<Rightarrow> nat \<Rightarrow> nat \<Rightarrow> pystr list \<Rightarrow> pystr \<Rightarrow> holding list" where
  "iifl_lines report_date page_num i [] current_category = []"
| "iifl_lines report_date page_num i (l # rest) current_category =
     (if any_in [''MANAGED ACCOUNTS EQUITY'', ''UNLISTED EQUITY'', ''DIRECT EQUITY'', ''DEBT'']
                (py_upper (py_strip l))
      then iifl_lines report_date page_num (i + 1) rest (py_strip l)
      else
        iifl_instrument_line report_date page_num i (py_strip l) rest current_category @
        iifl_lines report_date page_num (i + 1) rest current_category)"

text \<open>The loop over the tables of a page collects numbers and appends nothing.\<close>

definition iifl_page :: "pystr \<Rightarrow> nat \<times> page \<Rightarrow> holding list" where
  "iifl_page report_date = (\<lambda>(page_num, pg).
     (let text = page_text pg in
      if page_num < 3 then []
      else if \<not> any_in [''DETAILED HOLDING'', ''HOLDING STATEMENT'', ''MANAGED ACCOUNTS'',
                         ''UNLISTED EQUITY'', ''INSTRUMENT NAME'', ''PORTFOLIO MANAGER'',
                         ''HOLDING COST'', ''NET ASSET VALUE'', ''AIF''] (py_upper text) \<and>
              \<not> any_in [''ABAKKUS'', ''DIVERSIFIED'', ''ALPHA FUND'', ''NATIONAL STOCK EXCHANGE'',
                         ''PORTFOLIO MANAGER'', ''QUANTITY''] (py_upper text) then []
      else if (py_in (str_of ''SUMMARY OF TOTAL PORTFOLIO'') text \<and>
               \<not> py_in (str_of ''INSTRUMENT NAME'') text \<and>
               \<not> py_in (str_of ''DETAILED HOLDING'') text) \<or>
              ((py_in (str_of ''TRANSACTION STATEMENT'') text \<or>
                py_in (str_of ''CORPORATE ACTION'') text) \<and>
               \<not> py_in (str_of ''HOLDING STATEMENT'') text) then []
      else iifl_lines report_date page_num 0 (split_on 10 text) []))"

definition IIFL_extract :: "page list \<Rightarrow> holding list" where
  "IIFL_extract pages = concat (map (iifl_page (first_page_date pages)) (enumerate 0 pages))"

section \<open>The asset-identity normalizer\<close>

text \<open>\<open>r'(\d{1,2}[-/]\w{3}[-/]\d{2,4})'\<close>\<close>

definition date_pattern :: rx where
  "date_pattern =
     Grp (cat [rx_times [Digit] 1 2, One [Lit 45, Lit 47], rx_times [Word] 3 3,
               One [Lit 45, Lit 47], rx_times [Digit] 2 4])"

text \<open>\<open>r'(SERIES\s*\w+|CLASS\s*\w+)'\<close>\<close>

definition series_pattern :: rx where
  "series_pattern =
     Grp (Or (cat [lit (str_of ''SERIES''), rx_star [Space], rx_plus [Word]])
             (cat [lit (str_of ''CLASS''), rx_star [Space], rx_plus [Word]]))"

text \<open>
  The patterns of the generic normalization are written in the source as raw strings
  with doubled backslashes, such as \<open>r'\\bGROWTH\\b'\<close>.  In a raw string the two
  backslashes are two characters, and \<open>re\<close> reads \<open>\\\<close> as one literal backslash:
  the pattern is the literal text backslash, \<open>b\<close>, \<open>GROWTH\<close>, backslash, \<open>b\<close>.
  Likewise \<open>\\(\<close> is a literal backslash followed by an opening group, and \<open>\\s\<close>
  is a literal backslash followed by the letter \<open>s\<close>.  Code point 92 is the backslash,
  45 the hyphen, 115 the letter \<open>s\<close>.
\<close>

definition bs_b :: "string \<Rightarrow> rx" where
  "bs_b w = lit ([92] @ str_of ''b'' @ str_of w @ [92] @ str_of ''b'')"

definition generic_patterns :: "(rx \<times> pystr) list" where
  "generic_patterns =
    [ \<comment> \<open>\<open>r'\\(DEMAT\\)'\<close>\<close>
      (Cat (One [Lit 92]) (Grp (Cat (lit (str_of ''DEMAT'')) (One [Lit 92]))), []),
      \<comment> \<open>\<open>r'\\(ERSTWHILE.*?\\)'\<close>\<close>
      (Cat (One [Lit 92])
           (Grp (cat [lit (str_of ''ERSTWHILE''), Rep [Dot] 0 None False, One [Lit 92]])), []),
      \<comment> \<open>\<open>r'\\bCLASS A1\\b|\\bCL A1\\b|\\bCLASS B1\\b|\\bCL B1\\b|\\bCL D4\\b'\<close>\<close>
      (alt [bs_b ''CLASS A1'', bs_b ''CL A1'', bs_b ''CLASS B1'', bs_b ''CL B1'',
            bs_b ''CL D4''], []),
      \<comment> \<open>\<open>r'\\bDIRECT PLAN\\b|\\bREGULAR PLAN\\b'\<close>\<close>
      (alt [bs_b ''DIRECT PLAN'', bs_b ''REGULAR PLAN''], []),
      \<comment> \<open>\<open>r'\\bGROWTH\\b'\<close>\<close>
      (bs_b ''GROWTH'', []),
      \<comment> \<open>\<open>r'\\bLTD\\b|\\bLIMITED\\b'\<close>\<close>
      (alt [bs_b ''LTD'', bs_b ''LIMITED''], []),
      \<comment> \<open>\<open>r'\\bLLP\\b'\<close>\<close>
      (bs_b ''LLP'', []),
      \<comment> \<open>\<open>r'\\bFUND\\b'\<close>\<close>
      (bs_b ''FUND'', []),
      \<comment> \<open>\<open>r'\\bAIF\\b'\<close>\<close>
      (bs_b ''AIF'', []),
      \<comment> \<open>\<open>r'\\bEQUITY\\b'\<close>\<close>
      (bs_b ''EQUITY'', []),
      \<comment> \<open>\<open>r'\\bVI\\b'\<close>\<close>
      (bs_b ''VI'', []),
      \<comment> \<open>\<open>r'\\bTRUST\\b'\<close>\<close>
      (bs_b ''TRUST'', []),
      \<comment> \<open>\<open>r'\\bINVESTMENT\\b'\<close>\<close>
      (bs_b ''INVESTMENT'', []),
      \<comment> \<open>\<open>r'\\bALTERNATIVE\\b'\<close>\<close>
      (bs_b ''ALTERNATIVE'', []),
      \<comment> \<open>\<open>r'\\bSERIES\\b|\\bSR\\b'\<close>\<close>
      (alt [bs_b ''SERIES'', bs_b ''SR''], []),
      \<comment> \<open>\<open>r'\\bI\\b|\\bIV\\b'\<close>\<close>
      (alt [bs_b ''I'', bs_b ''IV''], []),
      \<comment> \<open>\<open>r'[-\\s]+'\<close>, replaced by one space\<close>
      (rx_plus [Lit 45, Lit 92, Lit 115], str_of '' ''),
      \<comment> \<open>\<open>r'\\s*-\\s*25-'\<close>\<close>
      (cat [One [Lit 92], rx_star [Lit 115], One [Lit 45], One [Lit 92], rx_star [Lit 115],
            lit (str_of ''25-'')], []),
      \<comment> \<open>\<open>r'\\s*6W\\s*12A'\<close>\<close>
      (cat [One [Lit 92], rx_star [Lit 115], lit (str_of ''6W''), One [Lit 92],
            rx_star [Lit 115], lit (str_of ''12A'')], []),
      \<comment> \<open>\<open>r'\\s*OPT\\s*1'\<close>\<close>
      (cat [One [Lit 92], rx_star [Lit 115], lit (str_of ''OPT''), One [Lit 92],
            rx_star [Lit 115], lit (str_of ''1'')], []),
      \<comment> \<open>\<open>r'\\s+'\<close>, replaced by one space\<close>
      (Cat (One [Lit 92]) (rx_plus [Lit 115]), str_of '' '') ]"

text \<open>The chain of \<open>key = re.sub(pattern, repl, key)\<close> and the final \<open>strip()\<close>.\<close>

definition generic_normalization :: "pystr \<Rightarrow> pystr" where
  "generic_normalization key =
     py_strip (fold (\<lambda>(r, repl) k. re_sub r repl k) generic_patterns key)"

definition create_asset_key :: "pystr \<Rightarrow> pystr" where
  "create_asset_key name =
    (let key = py_upper name;
         date_suffix = (case re_search date_pattern key of
                          Some m \<Rightarrow> str_of ''_'' @ m_group 1 m
                        | None \<Rightarrow> [])
     in
     if py_in (str_of ''ASK'') key \<and> py_in (str_of ''GROWTH'') key \<and> py_in (str_of ''INDIA'') key
     then
       (let series_suffix = (case re_search series_pattern key of
                               Some m \<Rightarrow> str_of ''_'' @ m_group 1 m
                             | None \<Rightarrow> [])
        in str_of ''ASK GROWTH INDIA'' @ series_suffix @ date_suffix)
     else if py_in (str_of ''ALTACURA'') key \<and> py_in (str_of ''AI'') key \<and>
             py_in (str_of ''ABSOLUTE'') key \<and> py_in (str_of ''RETURN'') key
     then replace_char 32 95 key
     else if py_in (str_of ''WHITE'') key \<and> py_in (str_of ''OAK'') key \<and>
             py_in (str_of ''INDIA'') key \<and>
             (py_in (str_of ''EQUITY'') key \<or> py_in (str_of ''VI'') key)
     then str_of ''WHITE OAK INDIA EQUITY'' @ date_suffix
     else if py_in (str_of ''ACCURACAP'') key \<and>
             (py_in (str_of ''ALPHA'') key \<or> py_in (str_of ''PRIME'') key)
     then str_of ''ACCURACAP ALPHA'' @ date_suffix
     else if py_in (str_of ''WHITE'') key \<and> py_in (str_of ''SPACE'') key \<and>
             py_in (str_of ''ALPHA'') key
     then replace_char 32 95 key
     else if py_in (str_of ''MOTILAL OSWAL'') key \<and>
             (py_in (str_of ''ALTERNATIVE'') key \<or> py_in (str_of ''FOUNDERS'') key \<or>
              py_in (str_of ''SELECT'') key)
     then
       (if py_in (str_of ''SELECT'') key \<and>
           (py_in (str_of ''OPP'') key \<or> py_in (str_of ''OPPORTUNITIES'') key)
        then str_of ''MOTILAL OSWAL SELECT OPPORTUNITIES''
        else if py_in (str_of ''FOUNDERS'') key \<or>
                (py_in (str_of ''MOTILAL'') key \<and> py_in (str_of ''OSWL'') key \<and>
                 py_in (str_of ''ANCHORS'') key)
        then str_of ''MOTILAL OSWAL FOUNDERS''
        else str_of ''MOTILAL OSWAL ALTERNATIVE'')
     else generic_normalization key)"

section \<open>The deduplication engine\<close>

definition manager_priority :: "pystr list" where
  "manager_priority =
     map str_of [''Client Associates'', ''IND Money'', ''Yes Bank'', ''Motilal Oswal'',
                 ''IIFL 360 One'', ''Kotak'']"

text \<open>
  The first loop of \<open>remove_duplicates\<close> builds the dictionary \<open>holdings_by_manager\<close>:
  a manager becomes a key at its first holding, and each holding is appended to the
  list of its manager.
\<close>

definition group_step :: "holding \<Rightarrow> (pystr \<rightharpoonup> holding list) \<Rightarrow> (pystr \<rightharpoonup> holding list)" where
  "group_step h d =
     (let manager = manager_name h;
          d' = (if manager \<notin> dom d then d(manager \<mapsto> []) else d)
      in d'(manager \<mapsto> the (d' manager) @ [h]))"

definition holdings_by_manager :: "holding list \<Rightarrow> (pystr \<rightharpoonup> holding list)" where
  "holdings_by_manager all_holdings = fold group_step all_holdings Map.empty"

text \<open>\<open>get_original_manager\<close>: the manager of the first kept holding with the key.\<close>

fun get_original_manager :: "pystr set \<Rightarrow> pystr \<Rightarrow> holding list \<Rightarrow> pystr" where
  "get_original_manager seen_assets asset_key [] = str_of ''Unknown''"
| "get_original_manager seen_assets asset_key (h # hs) =
     (if create_asset_key (asset_name h) = asset_key then manager_name h
      else get_original_manager seen_assets asset_key hs)"

record removed_entry =
  duplicate_holding :: holding
  original_manager :: pystr

text \<open>The three local variables that the second loop updates.\<close>

record dedup_state =
  seen_assets :: "pystr set"
  removed_duplicates :: "removed_entry list"
  clean_holdings :: "holding list"

definition dedup_init :: dedup_state where
  "dedup_init = \<lparr>seen_assets = {}, removed_duplicates = [], clean_holdings = []\<rparr>"

text \<open>The body of the inner loop, for one holding.\<close>

definition dedup_holding :: "holding \<Rightarrow> dedup_state \<Rightarrow> dedup_state" where
  "dedup_holding h st =
     (let asset_key = create_asset_key (asset_name h) in
      if asset_key \<in> seen_assets st then
        st\<lparr>removed_duplicates := removed_duplicates st @
             [\<lparr>duplicate_holding = h,
               original_manager =
                 get_original_manager (seen_assets st) asset_key (clean_holdings st)\<rparr>]\<rparr>
      else
        st\<lparr>seen_assets := insert asset_key (seen_assets st),
           clean_holdings := clean_holdings st @ [h]\<rparr>)"

text \<open>The body of the outer loop, for one manager of the priority list.\<close>

definition dedup_manager ::
  "(pystr \<rightharpoonup> holding list) \<Rightarrow> pystr \<Rightarrow> dedup_state \<Rightarrow> dedup_state" where
  "dedup_manager by_manager manager st =
     (case by_manager manager of
        None \<Rightarrow> st
      | Some hs \<Rightarrow> fold dedup_holding hs st)"

text \<open>The state of the local variables when \<open>remove_duplicates\<close> returns.\<close>

definition remove_duplicates_run :: "holding list \<Rightarrow> dedup_state" where
  "remove_duplicates_run all_holdings =
     fold (dedup_manager (holdings_by_manager all_holdings)) manager_priority dedup_init"

text \<open>\<open>remove_duplicates\<close> ends with \<open>return clean_holdings\<close>.\<close>

definition remove_duplicates :: "holding list \<Rightarrow> holding list" where
  "remove_duplicates all_holdings = clean_holdings (remove_duplicates_run all_holdings)"

subsection \<open>Reference functions for the proofs\<close>

text \<open>
  The order in which the second loop visits the holdings (manager by manager, in
  priority order, each manager's holdings in input order), the holdings that a run over
  a list keeps when \<open>seen\<close> holds the keys seen so far, and the relation "comes earlier
  in the priority list".
\<close>

definition by_priority :: "pystr list \<Rightarrow> holding list \<Rightarrow> holding list" where
  "by_priority ms xs = concat (map (\<lambda>m. filter (\<lambda>h. manager_name h = m) xs) ms)"

fun first_claims :: "pystr set \<Rightarrow> holding list \<Rightarrow> holding list" where
  "first_claims seen [] = []"
| "first_claims seen (h # hs) =
     (if create_asset_key (asset_name h) \<in> seen then first_claims seen hs
      else h # first_claims (insert (create_asset_key (asset_name h)) seen) hs)"

definition higher_priority :: "pystr \<Rightarrow> pystr \<Rightarrow> bool" where
  "higher_priority a b \<longleftrightarrow> b \<in> set (tl (dropWhile (\<lambda>m. m \<noteq> a) manager_priority))"





section \<open>Concrete inputs\<close>

text \<open>A page without text or tables.\<close>

definition empty_page :: page where
  "empty_page = \<lparr>page_text = [], page_tables = []\<rparr>"

text \<open>
  An IND Money statement of one page for the period AUGUST - 2025, with one holdings
  row: market value 1,000 in column 4, cost basis 800 in column 7.
\<close>

definition ind_example_pages :: "page list" where
  "ind_example_pages =
     [\<lparr>page_text = str_of ''Monthly Statement Period: AUGUST - 2025 HOLDINGS'',
       page_tables =
         [[[Some (str_of ''Symbol''), Some (str_of ''Description'')],
           [],
           [Some (str_of ''AAPL''), Some (str_of ''Apple Inc''), Some (str_of ''5''),
            Some (str_of ''50''), Some (str_of ''$1,000.00''), None, None,
            Some (str_of ''$800.00'')]]]\<rparr>]"

text \<open>An exchange rate of 83.0 for every report date.\<close>

definition rate_83 :: "pystr \<Rightarrow> pyfloat" where
  "rate_83 report_date = Fin 83.0"

text \<open>
  A Client Associates report of one page.  Its table has a \<open>Security\<close> header and one
  fund row: total cost 2,000 in column 6, market value 3,000 in column 8, and 500 in the
  gain/loss column 10.  In the page text the fund name and its figures are on separate
  lines, so the text path finds no fund line.
\<close>

definition ca_example_pages :: "page list" where
  "ca_example_pages =
     [\<lparr>page_text = str_of ''Security'' @ [10] @ str_of ''XY Fund'' @ [10] @
                    str_of ''01/02/2024 2,000 3,000 500 25'',
       page_tables =
         [[[Some (str_of ''Security'')],
           [Some (str_of ''XY Fund''), Some (str_of ''01/02/2024''), None, None, None, None,
            Some (str_of ''2,000''), None, Some (str_of ''3,000''), None, Some (str_of ''500''),
            Some (str_of ''25'')]]]\<rparr>]"

text \<open>
  A Kotak statement whose fifth page has a holdings table with a \<open>Bonds\<close> category row
  and one bond: holding cost 50,000 and market value 60,000.
\<close>

definition kotak_example_pages :: "page list" where
  "kotak_example_pages =
     [empty_page, empty_page, empty_page, empty_page,
      \<lparr>page_text = str_of ''HOLDING COST'',
       page_tables =
         [[[Some (str_of ''Instrument Name''), Some (str_of ''Qty''), Some (str_of ''Holding Cost'')],
           [Some (str_of ''Bonds'')],
           [Some (str_of ''8.5 NCD XYZ 2030''), Some (str_of ''10''), Some (str_of ''50,000.00''),
            None, Some (str_of ''60,000.00'')]]]\<rparr>]"


text \<open>A holding with a given manager and name, for the concrete inputs below.\<close>

definition example_holding :: "string \<Rightarrow> string \<Rightarrow> holding" where
  "example_holding manager name =
     standard_schema\<lparr>manager_name := str_of manager, asset_name := str_of name\<rparr>"

section \<open>Properties of the deduplication engine\<close>

lemma group_step_apply:
  "group_step h d m =
     (if m = manager_name h then Some ((case d m of None \<Rightarrow> [] | Some l \<Rightarrow> l) @ [h]) else d m)"
  by (auto simp: group_step_def Let_def dom_def split: option.splits)

lemma group_fold:
  "fold group_step xs d m =
     (case d m of
        None \<Rightarrow> (if filter (\<lambda>h. manager_name h = m) xs = [] then None
                 else Some (filter (\<lambda>h. manager_name h = m) xs))
      | Some l \<Rightarrow> Some (l @ filter (\<lambda>h. manager_name h = m) xs))"
proof (induction xs arbitrary: d)
  case Nil
  then show ?case by (simp split: option.splits)
next
  case (Cons x xs)
  have "fold group_step (x # xs) d m = fold group_step xs (group_step x d) m" by simp
  also have "\<dots> = (case group_step x d m of
        None \<Rightarrow> (if filter (\<lambda>h. manager_name h = m) xs = [] then None
                 else Some (filter (\<lambda>h. manager_name h = m) xs))
      | Some l \<Rightarrow> Some (l @ filter (\<lambda>h. manager_name h = m) xs))"
    by (rule Cons.IH)
  finally have E: "fold group_step (x # xs) d m = (case group_step x d m of
        None \<Rightarrow> (if filter (\<lambda>h. manager_name h = m) xs = [] then None
                 else Some (filter (\<lambda>h. manager_name h = m) xs))
      | Some l \<Rightarrow> Some (l @ filter (\<lambda>h. manager_name h = m) xs))" .
  have gs: "group_step x d m =
     (if m = manager_name x then Some ((case d m of None \<Rightarrow> [] | Some l \<Rightarrow> l) @ [x]) else d m)"
    by (rule group_step_apply)
  show ?case unfolding E gs by (simp split: option.splits)
qed

lemma holdings_by_manager_eq:
  "holdings_by_manager xs m =
     (if filter (\<lambda>h. manager_name h = m) xs = [] then None
      else Some (filter (\<lambda>h. manager_name h = m) xs))"
  by (simp add: holdings_by_manager_def group_fold)

lemma dedup_manager_eq:
  "dedup_manager (holdings_by_manager xs) m st =
     fold dedup_holding (filter (\<lambda>h. manager_name h = m) xs) st"
  by (simp add: dedup_manager_def holdings_by_manager_eq)

lemma fold_managers:
  "fold (dedup_manager (holdings_by_manager xs)) ms st = fold dedup_holding (by_priority ms xs) st"
  by (induction ms arbitrary: st) (simp_all add: by_priority_def dedup_manager_eq)

lemma run_eq:
  "remove_duplicates_run xs = fold dedup_holding (by_priority manager_priority xs) dedup_init"
  by (simp add: remove_duplicates_run_def fold_managers)

lemma clean_fold:
  "clean_holdings (fold dedup_holding ys st) = clean_holdings st @ first_claims (seen_assets st) ys"
  by (induction ys arbitrary: st) (simp_all add: dedup_holding_def Let_def)

lemma seen_fold:
  "seen_assets (fold dedup_holding ys st) =
     seen_assets st \<union> (\<lambda>h. create_asset_key (asset_name h)) ` set ys"
  by (induction ys arbitrary: st) (auto simp: dedup_holding_def Let_def)

lemma remove_duplicates_eq:
  "remove_duplicates xs = first_claims {} (by_priority manager_priority xs)"
  by (simp add: remove_duplicates_def run_eq clean_fold dedup_init_def)

lemma first_claims_subset: "set (first_claims S ys) \<subseteq> set ys"
  by (induction ys arbitrary: S) auto

lemma first_claims_append:
  "first_claims S (ys @ zs) =
     first_claims S ys @ first_claims (S \<union> (\<lambda>h. create_asset_key (asset_name h)) ` set ys) zs"
  by (induction ys arbitrary: S) (simp_all add: insert_absorb)

lemma first_claims_idem: "first_claims S (first_claims S ys) = first_claims S ys"
proof (induction ys arbitrary: S)
  case Nil
  then show ?case by simp
next
  case (Cons h hs)
  show ?case
  proof (cases "create_asset_key (asset_name h) \<in> S")
    case True
    then show ?thesis by (simp add: Cons.IH)
  next
    case False
    have "first_claims S (h # first_claims (insert (create_asset_key (asset_name h)) S) hs)
          = h # first_claims (insert (create_asset_key (asset_name h)) S)
                  (first_claims (insert (create_asset_key (asset_name h)) S) hs)"
      using False by simp
    then show ?thesis using False by (simp add: Cons.IH)
  qed
qed

lemma by_priority_Cons:
  "by_priority (m # ms) xs = filter (\<lambda>h. manager_name h = m) xs @ by_priority ms xs"
  by (simp add: by_priority_def)

lemma by_priority_append_ms:
  "by_priority (ms @ ns) xs = by_priority ms xs @ by_priority ns xs"
  by (simp add: by_priority_def)

lemma by_priority_managers: "h \<in> set (by_priority ms xs) \<Longrightarrow> manager_name h \<in> set ms \<and> h \<in> set xs"
  by (auto simp: by_priority_def)

lemma by_priority_skip:
  "\<forall>h \<in> set a. manager_name h \<notin> set ms \<Longrightarrow> by_priority ms (a @ b) = by_priority ms b"
proof (induction ms)
  case Nil
  then show ?case by (simp add: by_priority_def)
next
  case (Cons m ms)
  then have "filter (\<lambda>h. manager_name h = m) a = []"
    by (auto simp: filter_empty_conv)
  with Cons show ?case by (simp add: by_priority_Cons)
qed

lemma by_priority_none:
  "\<forall>h \<in> set a. manager_name h \<notin> set ms \<Longrightarrow> by_priority ms a = []"
  using by_priority_skip [of a ms "[]"] by (simp add: by_priority_def)

lemma by_priority_first_claims:
  "distinct ms \<Longrightarrow>
   by_priority ms (first_claims S (by_priority ms xs)) = first_claims S (by_priority ms xs)"
proof (induction ms arbitrary: S)
  case Nil
  then show ?case by (simp add: by_priority_def)
next
  case (Cons m ms)
  define F where "F = filter (\<lambda>h. manager_name h = m) xs"
  define S' where "S' = S \<union> (\<lambda>h. create_asset_key (asset_name h)) ` set F"
  define A where "A = first_claims S F"
  define B where "B = first_claims S' (by_priority ms xs)"
  have split: "first_claims S (by_priority (m # ms) xs) = A @ B"
    by (simp add: A_def B_def S'_def F_def by_priority_Cons first_claims_append)
  have "set A \<subseteq> set F"
    unfolding A_def by (rule first_claims_subset)
  then have A_m: "\<forall>h \<in> set A. manager_name h = m"
    unfolding F_def by auto
  have "set B \<subseteq> set (by_priority ms xs)"
    unfolding B_def by (rule first_claims_subset)
  then have B_ms: "\<forall>h \<in> set B. manager_name h \<in> set ms"
    using by_priority_managers by blast
  have m_notin: "m \<notin> set ms"
    using Cons.prems by simp
  have fA: "filter (\<lambda>h. manager_name h = m) A = A"
    by (rule filter_True) (rule A_m)
  have fB: "filter (\<lambda>h. manager_name h = m) B = []"
    using B_ms m_notin by (auto simp: filter_empty_conv)
  have skip: "by_priority ms (A @ B) = by_priority ms B"
    by (rule by_priority_skip) (use A_m m_notin in auto)
  have IH: "by_priority ms B = B"
    unfolding B_def by (rule Cons.IH) (use Cons.prems in simp)
  have "by_priority (m # ms) (A @ B) = A @ B"
    by (simp add: by_priority_Cons fA fB skip IH)
  then show ?case
    by (simp only: split)
qed

lemma distinct_manager_priority: "distinct manager_priority"
  by (simp add: manager_priority_def str_of_def)

lemma removed_fold:
  "mset (clean_holdings (fold dedup_holding ys st)) +
   mset (map duplicate_holding (removed_duplicates (fold dedup_holding ys st))) =
   mset (clean_holdings st) + mset (map duplicate_holding (removed_duplicates st)) + mset ys"
  by (induction ys arbitrary: st) (simp_all add: dedup_holding_def Let_def)

lemma mset_by_priority:
  "distinct ms \<Longrightarrow>
   mset (by_priority ms xs) = mset (filter (\<lambda>h. manager_name h \<in> set ms) xs)"
proof (induction ms)
  case Nil
  then show ?case by (simp add: by_priority_def)
next
  case (Cons m ms)
  then have m_notin: "m \<notin> set ms" by simp
  have "mset (filter (\<lambda>h. manager_name h = m) xs) +
        mset (filter (\<lambda>h. manager_name h \<in> set ms) xs) =
        mset (filter (\<lambda>h. manager_name h \<in> set (m # ms)) xs)"
    using m_notin by (induction xs) auto
  with Cons show ?case by (simp add: by_priority_Cons)
qed

lemma run_partition:
  "mset (remove_duplicates xs) +
   mset (map duplicate_holding (removed_duplicates (remove_duplicates_run xs))) =
   mset (filter (\<lambda>h. manager_name h \<in> set manager_priority) xs)"
  unfolding remove_duplicates_def run_eq
  using removed_fold [of "by_priority manager_priority xs" dedup_init]
  by (simp add: dedup_init_def mset_by_priority distinct_manager_priority)

lemma higher_priority_split:
  assumes "higher_priority a b"
  shows "\<exists>ps qs rs. manager_priority = ps @ a # qs @ b # rs"
proof -
  let ?d = "dropWhile (\<lambda>m. m \<noteq> a) manager_priority"
  from assms have b_in: "b \<in> set (tl ?d)"
    by (simp add: higher_priority_def)
  have ne: "?d \<noteq> []"
  proof
    assume "?d = []"
    with b_in show False by simp
  qed
  then have "hd ?d = a"
    using hd_dropWhile [of "\<lambda>m. m \<noteq> a" manager_priority] by simp
  with ne have d: "?d = a # tl ?d"
    by (metis list.collapse)
  from b_in obtain qs rs where "tl ?d = qs @ b # rs"
    by (meson split_list)
  with d have "?d = a # qs @ b # rs" by simp
  moreover have "manager_priority = takeWhile (\<lambda>m. m \<noteq> a) manager_priority @ ?d"
    by simp
  ultimately show ?thesis by metis
qed

lemma by_priority_pair:
  assumes "distinct (ps @ a # qs @ b # rs)" "manager_name x = a" "manager_name y = b"
  shows "by_priority (ps @ a # qs @ b # rs) [x, y] = [x, y]"
    and "by_priority (ps @ a # qs @ b # rs) [y, x] = [x, y]"
proof -
  have ne: "a \<noteq> b" using assms(1) by auto
  have ps: "\<forall>h \<in> set [x, y]. manager_name h \<notin> set ps" "\<forall>h \<in> set [y, x]. manager_name h \<notin> set ps"
    using assms by auto
  have qs: "\<forall>h \<in> set [x, y]. manager_name h \<notin> set qs" "\<forall>h \<in> set [y, x]. manager_name h \<notin> set qs"
    using assms by auto
  have rs: "\<forall>h \<in> set [x, y]. manager_name h \<notin> set rs" "\<forall>h \<in> set [y, x]. manager_name h \<notin> set rs"
    using assms by auto
  have split: "by_priority (ps @ a # qs @ b # rs) zs =
      by_priority ps zs @ filter (\<lambda>h. manager_name h = a) zs @ by_priority qs zs @
      filter (\<lambda>h. manager_name h = b) zs @ by_priority rs zs" for zs
    by (simp add: by_priority_append_ms by_priority_Cons)
  show "by_priority (ps @ a # qs @ b # rs) [x, y] = [x, y]"
    unfolding split by_priority_none [OF ps(1)] by_priority_none [OF qs(1)] by_priority_none [OF rs(1)]
    using ne assms(2,3) by simp
  show "by_priority (ps @ a # qs @ b # rs) [y, x] = [x, y]"
    unfolding split by_priority_none [OF ps(2)] by_priority_none [OF qs(2)] by_priority_none [OF rs(2)]
    using ne assms(2,3) by simp
qed

lemma run_pair:
  assumes "create_asset_key (asset_name a) = create_asset_key (asset_name b)"
      and "higher_priority (manager_name a) (manager_name b)"
      and "xs = [a, b] \<or> xs = [b, a]"
  shows "remove_duplicates_run xs =
           \<lparr>seen_assets = {create_asset_key (asset_name a)},
            removed_duplicates = [\<lparr>duplicate_holding = b, original_manager = manager_name a\<rparr>],
            clean_holdings = [a]\<rparr>"
proof -
  from higher_priority_split [OF assms(2)] obtain ps qs rs
    where mp: "manager_priority = ps @ manager_name a # qs @ manager_name b # rs" by blast
  have d: "distinct (ps @ manager_name a # qs @ manager_name b # rs)"
    using distinct_manager_priority mp by simp
  have "by_priority manager_priority xs = [a, b]"
    using assms(3) by_priority_pair [OF d refl refl] mp by auto
  then show ?thesis
    by (simp add: run_eq dedup_holding_def dedup_init_def assms(1))
qed

lemma run_pair_distinct:
  assumes "create_asset_key (asset_name a) \<noteq> create_asset_key (asset_name b)"
      and "higher_priority (manager_name a) (manager_name b)"
      and "xs = [a, b] \<or> xs = [b, a]"
  shows "remove_duplicates_run xs =
           \<lparr>seen_assets = {create_asset_key (asset_name b), create_asset_key (asset_name a)},
            removed_duplicates = [],
            clean_holdings = [a, b]\<rparr>"
proof -
  from higher_priority_split [OF assms(2)] obtain ps qs rs
    where mp: "manager_priority = ps @ manager_name a # qs @ manager_name b # rs" by blast
  have d: "distinct (ps @ manager_name a # qs @ manager_name b # rs)"
    using distinct_manager_priority mp by simp
  have "by_priority manager_priority xs = [a, b]"
    using assms(3) by_priority_pair [OF d refl refl] mp by auto
  then show ?thesis
    using assms(1) by (simp add: run_eq dedup_holding_def dedup_init_def)
qed

lemma run_single:
  "manager_name a \<in> set manager_priority \<Longrightarrow>
   remove_duplicates_run [a] =
     \<lparr>seen_assets = {create_asset_key (asset_name a)}, removed_duplicates = [],
      clean_holdings = [a]\<rparr>"
proof -
  assume "manager_name a \<in> set manager_priority"
  then obtain ps qs where mp: "manager_priority = ps @ manager_name a # qs"
    by (meson split_list)
  have d: "distinct (ps @ manager_name a # qs)"
    using distinct_manager_priority mp by simp
  have "by_priority ps [a] = []" "by_priority qs [a] = []"
    using d by (auto intro: by_priority_none)
  then have "by_priority manager_priority [a] = [a]"
    by (simp add: mp by_priority_append_ms by_priority_Cons)
  then show ?thesis
    by (simp add: run_eq dedup_holding_def dedup_init_def)
qed

lemma key_abc_series:
  "create_asset_key (str_of ''ABC Growth Fund - Series I'') = str_of ''ABC GROWTH FUND   SERIES I''"
  by code_simp

lemma key_abc_sr:
  "create_asset_key (str_of ''ABC GROWTH FUND SR I'') = str_of ''ABC GROWTH FUND SR I''"
  by code_simp

lemma key_xy_lower: "create_asset_key (str_of ''Xy Ltd'') = str_of ''XY LTD''"
  by code_simp

lemma key_xy_upper: "create_asset_key (str_of ''XY LTD'') = str_of ''XY LTD''"
  by code_simp

lemma ca_before_kotak: "higher_priority (str_of ''Client Associates'') (str_of ''Kotak'')"
  by (simp add: higher_priority_def manager_priority_def str_of_def)

lemma ca_listed: "str_of ''Client Associates'' \<in> set manager_priority"
  by (simp add: manager_priority_def)

lemma zz_not_listed: "str_of ''Zerodha'' \<notin> set manager_priority"
  by (simp add: manager_priority_def str_of_def)

lemma str_neq: "str_of ''ABC GROWTH FUND   SERIES I'' \<noteq> str_of ''ABC GROWTH FUND SR I''"
  by (simp add: str_of_def)

text \<open>
  Claim C2.  The normalizer is evaluated at the two names of the scenario.  None of the
  doubled-backslash patterns matches (neither name contains a backslash), so the only
  change after upper-casing is that the hyphen of the first name becomes a space: the
  two keys differ, and deduplication keeps both holdings.
\<close>

theorem abc_keys_differ:
  "create_asset_key (str_of ''ABC Growth Fund - Series I'') = str_of ''ABC GROWTH FUND   SERIES I'' \<and>
   create_asset_key (str_of ''ABC GROWTH FUND SR I'') = str_of ''ABC GROWTH FUND SR I'' \<and>
   create_asset_key (str_of ''ABC Growth Fund - Series I'') \<noteq> create_asset_key (str_of ''ABC GROWTH FUND SR I'') \<and>
   remove_duplicates [example_holding ''Client Associates'' ''ABC Growth Fund - Series I'',
                      example_holding ''Kotak'' ''ABC GROWTH FUND SR I''] =
     [example_holding ''Client Associates'' ''ABC Growth Fund - Series I'',
      example_holding ''Kotak'' ''ABC GROWTH FUND SR I'']"
proof -
  let ?a = "example_holding ''Client Associates'' ''ABC Growth Fund - Series I''"
  let ?b = "example_holding ''Kotak'' ''ABC GROWTH FUND SR I''"
  have ne: "create_asset_key (asset_name ?a) \<noteq> create_asset_key (asset_name ?b)"
    by (simp add: example_holding_def key_abc_series key_abc_sr str_neq)
  have hp: "higher_priority (manager_name ?a) (manager_name ?b)"
    by (simp add: example_holding_def ca_before_kotak)
  have "remove_duplicates [?a, ?b] = [?a, ?b]"
    unfolding remove_duplicates_def using run_pair_distinct [OF ne hp, of "[?a, ?b]"] by simp
  then show ?thesis
    using ne by (simp add: key_abc_series key_abc_sr example_holding_def)
qed



text \<open>
  Claim C5.  Running \<open>remove_duplicates\<close> on its own result returns that result.
\<close>

theorem dedup_idempotent: "remove_duplicates (remove_duplicates x) = remove_duplicates x"
  by (simp add: remove_duplicates_eq by_priority_first_claims distinct_manager_priority
      first_claims_idem)

text \<open>
  Claim C6, as stated, fails: \<open>remove_duplicates\<close> returns the clean list only.  Two
  inputs with different removed lists have the same return value, so the return value
  does not carry the removed list.
\<close>

theorem removed_log_not_returned:
  "remove_duplicates [example_holding ''Client Associates'' ''Xy Ltd''] =
   remove_duplicates [example_holding ''Client Associates'' ''Xy Ltd'',
                      example_holding ''Kotak'' ''XY LTD''] \<and>
   removed_duplicates (remove_duplicates_run [example_holding ''Client Associates'' ''Xy Ltd'']) = [] \<and>
   removed_duplicates (remove_duplicates_run [example_holding ''Client Associates'' ''Xy Ltd'',
                      example_holding ''Kotak'' ''XY LTD'']) =
     [\<lparr>duplicate_holding = example_holding ''Kotak'' ''XY LTD'',
       original_manager = str_of ''Client Associates''\<rparr>]"
proof -
  let ?a = "example_holding ''Client Associates'' ''Xy Ltd''"
  let ?b = "example_holding ''Kotak'' ''XY LTD''"
  have k: "create_asset_key (asset_name ?a) = create_asset_key (asset_name ?b)"
    by (simp add: example_holding_def key_xy_lower key_xy_upper)
  have hp: "higher_priority (manager_name ?a) (manager_name ?b)"
    by (simp add: example_holding_def ca_before_kotak)
  have m: "manager_name ?a = str_of ''Client Associates''"
    by (simp add: example_holding_def)
  have one: "remove_duplicates_run [?a] =
     \<lparr>seen_assets = {create_asset_key (asset_name ?a)}, removed_duplicates = [],
      clean_holdings = [?a]\<rparr>"
    by (rule run_single) (simp add: m ca_listed)
  have two: "remove_duplicates_run [?a, ?b] =
           \<lparr>seen_assets = {create_asset_key (asset_name ?a)},
            removed_duplicates = [\<lparr>duplicate_holding = ?b, original_manager = manager_name ?a\<rparr>],
            clean_holdings = [?a]\<rparr>"
    by (rule run_pair [OF k hp]) simp
  show ?thesis
    unfolding remove_duplicates_def one two by (simp add: m)
qed

text \<open>
  Claim C6, amended.  The function returns the deduplicated list; together with the
  local removed list it accounts for every input holding of a listed manager exactly
  once.
\<close>

theorem dedup_partition:
  "mset (remove_duplicates x) +
   mset (map duplicate_holding (removed_duplicates (remove_duplicates_run x))) =
   mset (filter (\<lambda>h. manager_name h \<in> set manager_priority) x)"
  by (rule run_partition)

text \<open>
  Claim C10.  A holding whose manager is not in the priority list is in neither the
  returned list nor the removed list.
\<close>

theorem unlisted_manager_dropped:
  assumes "h \<in> set x" and "manager_name h \<notin> set manager_priority"
  shows "h \<notin> set (remove_duplicates x) \<and>
         h \<notin> duplicate_holding ` set (removed_duplicates (remove_duplicates_run x))"
proof -
  have "h \<notin># mset (filter (\<lambda>h. manager_name h \<in> set manager_priority) x)"
    using assms(2) by simp
  then have "h \<notin># mset (remove_duplicates x) +
      mset (map duplicate_holding (removed_duplicates (remove_duplicates_run x)))"
    unfolding run_partition .
  then show ?thesis by simp
qed

theorem unlisted_manager_dropped_witness:
  "example_holding ''Zerodha'' ''Xy Ltd'' \<in> set [example_holding ''Zerodha'' ''Xy Ltd''] \<and>
   manager_name (example_holding ''Zerodha'' ''Xy Ltd'') \<notin> set manager_priority \<and>
   example_holding ''Zerodha'' ''Xy Ltd'' \<notin> set (remove_duplicates [example_holding ''Zerodha'' ''Xy Ltd'']) \<and>
   example_holding ''Zerodha'' ''Xy Ltd'' \<notin>
     duplicate_holding ` set (removed_duplicates (remove_duplicates_run [example_holding ''Zerodha'' ''Xy Ltd'']))"
proof -
  let ?h = "example_holding ''Zerodha'' ''Xy Ltd''"
  have a: "?h \<in> set [?h]" by simp
  have b: "manager_name ?h \<notin> set manager_priority"
    by (simp add: example_holding_def zz_not_listed)
  show ?thesis
    using unlisted_manager_dropped [OF a b] a b by blast
qed

section \<open>Properties of the value-parsing utilities\<close>



section \<open>Properties of the extractors\<close>

lemma Kotak_row_bonds:
  assumes "Kotak_extract_holding_from_row n row cg rd pn pc idate = Some h"
      and "asset_type h = str_of ''Bonds''"
  shows "current_market_value h = current_investment_value h \<and> pl_amount h = Fin 0 \<and>
         pl_percentage h = Fin 0"
  using assms
  by (auto simp: Kotak_extract_holding_from_row_def Let_def standard_schema_def
           split: prod.splits if_splits)

lemma kotak_candidate_from_row:
  "h \<in> set (kotak_candidate rd pn pc ds n row rest cg) \<Longrightarrow>
   \<exists>n row c idate. Kotak_extract_holding_from_row n row c rd pn pc idate = Some h \<and>
      fgt (current_market_value h) (Fin 1000)"
  unfolding kotak_candidate_def Let_def
  by (cases "kotak_numeric_cells (tl row)";
      cases "rest \<noteq> [] \<and> hd rest \<noteq> [] \<and> kotak_numeric_cells (hd rest)";
      cases "kotak_is_valid_instrument n")
     (auto split: option.splits if_splits)

lemma kotak_rows_from_row:
  "h \<in> set (kotak_rows rd pn pc ds rows cg) \<Longrightarrow>
   \<exists>n row c idate. Kotak_extract_holding_from_row n row c rd pn pc idate = Some h \<and>
      fgt (current_market_value h) (Fin 1000)"
proof (induction rows arbitrary: cg)
  case Nil
  then show ?case by simp
next
  case (Cons row rest)
  from Cons.prems have
    "h \<in> set (kotak_rows rd pn pc ds rest cg) \<or>
     h \<in> set (kotak_rows rd pn pc ds rest (cell_text (hd row))) \<or>
     h \<in> set (kotak_candidate rd pn pc ds (cell_text (hd row)) row rest cg)"
    by (auto split: if_splits)
  then show ?case
    using Cons.IH kotak_candidate_from_row by blast
qed

lemma Kotak_extract_from_row:
  "h \<in> set (Kotak_extract pages) \<Longrightarrow>
   \<exists>n row c rd pn pc idate. Kotak_extract_holding_from_row n row c rd pn pc idate = Some h \<and>
      fgt (current_market_value h) (Fin 1000)"
  by (auto simp: Kotak_extract_def kotak_page_def kotak_table_def Let_def
           split: if_splits option.splits dest!: kotak_rows_from_row) blast+

























lemma INDMoney_extract_empty: "INDMoney_extract rates ds pages = []"
  by (simp add: INDMoney_extract_def call_get_usd_to_inr_rate_def CurrencyConverter_attributes_def
      str_of_def Let_def)

text \<open>
  The text path of the Client Associates extractor and the Motilal Oswal, Yes Bank and
  IIFL 360 One extractors set \<open>pl_amount\<close> to the difference of the two values.
\<close>

lemma ca_fund_line_recomputes:
  "h \<in> set (ca_fund_line rd pn i line rest cg) \<Longrightarrow>
   pl_amount h = fsub (current_market_value h) (current_investment_value h)"
  unfolding ca_fund_line_def Let_def
  by (auto split: if_splits)

lemma ca_lines_recomputes:
  "h \<in> set (ca_lines rd pn i ls cg) \<Longrightarrow>
   pl_amount h = fsub (current_market_value h) (current_investment_value h)"
  by (induction ls arbitrary: i cg) (auto split: if_splits dest: ca_fund_line_recomputes)

lemma mo_equity_row_recomputes:
  "h \<in> set (mo_equity_row rd row) \<Longrightarrow>
   pl_amount h = fsub (current_market_value h) (current_investment_value h)"
  by (auto simp: mo_equity_row_def Let_def split: if_splits)

lemma mo_aif_row_recomputes:
  "h \<in> set (mo_aif_row rd row) \<Longrightarrow>
   pl_amount h = fsub (current_market_value h) (current_investment_value h)"
  by (auto simp: mo_aif_row_def Let_def split: if_splits)

lemma Motilal_recomputes:
  "h \<in> set (Motilal_extract pages) \<Longrightarrow>
   pl_amount h = fsub (current_market_value h) (current_investment_value h)"
  by (auto simp: Motilal_extract_def mo_page_def Let_def Motilal_extract_direct_equity_def
        Motilal_extract_aif_holdings_def mo_equity_table_def mo_aif_table_def
        split: if_splits dest: mo_equity_row_recomputes mo_aif_row_recomputes)

lemma yb_individual_recomputes:
  "h \<in> set (yb_individual c pn ti f) \<Longrightarrow>
   pl_amount h = fsub (current_market_value h) (current_investment_value h)"
  by (cases f) (auto simp: yb_individual_def yb_holding_def split: if_splits)

lemma yb_simple_recomputes:
  "h \<in> set (yb_simple c pn ti t fn) \<Longrightarrow>
   pl_amount h = fsub (current_market_value h) (current_investment_value h)"
  by (auto simp: yb_simple_def yb_holding_def Let_def split: if_splits)

lemma YesBank_recomputes:
  "h \<in> set (YesBank_extract pages) \<Longrightarrow>
   pl_amount h = fsub (current_market_value h) (current_investment_value h)"
  by (auto simp: YesBank_extract_def yb_page_def yb_table_def Let_def
        split: if_splits prod.splits dest: yb_individual_recomputes yb_simple_recomputes)

lemma iifl_instrument_line_recomputes:
  "h \<in> set (iifl_instrument_line rd pn i line rest cg) \<Longrightarrow>
   pl_amount h = fsub (current_market_value h) (current_investment_value h)"
  by (auto simp: iifl_instrument_line_def Let_def split: if_splits prod.splits)

lemma iifl_lines_recomputes:
  "h \<in> set (iifl_lines rd pn i ls cg) \<Longrightarrow>
   pl_amount h = fsub (current_market_value h) (current_investment_value h)"
  by (induction ls arbitrary: i cg) (auto split: if_splits dest: iifl_instrument_line_recomputes)

lemma IIFL_recomputes:
  "h \<in> set (IIFL_extract pages) \<Longrightarrow>
   pl_amount h = fsub (current_market_value h) (current_investment_value h)"
  by (auto simp: IIFL_extract_def iifl_page_def Let_def split: if_splits dest: iifl_lines_recomputes)

section \<open>The claims about the extractors\<close>

lemma map_single: "map f xs = [y] \<Longrightarrow> length xs = 1 \<and> f (hd xs) = y \<and> hd xs \<in> set xs"
  by (cases xs) auto

lemma ind_example_date: "ind_report_date ind_example_pages = str_of ''2025-08-31''"
  by code_simp

lemma ind_example_loop:
  "map (\<lambda>h. (current_market_value h, current_investment_value h))
       (ind_pages (Fin 83.0) (str_of ''2025-08-31'') Map.empty ind_example_pages) =
     [(Fin 83000, Fin 66400)]"
  by code_simp

lemma ca_example_values:
  "map (\<lambda>h. (current_investment_value h, current_market_value h, pl_amount h))
       (CA_extract ca_example_pages) = [(Fin 2000, Fin 3000, Fin 500)]"
  by code_simp

lemma kotak_example_values:
  "map (\<lambda>h. (asset_type h, current_investment_value h, current_market_value h, pl_amount h,
              pl_percentage h))
       (Kotak_extract kotak_example_pages) =
     [(str_of ''Bonds'', Fin 50000, Fin 50000, Fin 0, Fin 0)]"
  by code_simp





text \<open>
  Claim C1.  On the statement for AUGUST - 2025 the report date is 2025-08-31, and the
  row loop run with an exchange rate of 83.0 turns the reported 1,000 into a market
  value of 83,000.  But \<open>extract\<close> obtains the rate by calling
  \<open>get_usd_to_inr_rate\<close>, which \<open>CurrencyConverter\<close> does not have: the call raises
  \<open>AttributeError\<close> before the loop, the outer handler catches it, and the
  extractor returns no holding at all.
\<close>

theorem ind_money_rate_method_missing:
  "ind_report_date ind_example_pages = str_of ''2025-08-31'' \<and>
   length (ind_pages (Fin 83.0) (str_of ''2025-08-31'') Map.empty ind_example_pages) = 1 \<and>
   current_market_value
     (hd (ind_pages (Fin 83.0) (str_of ''2025-08-31'') Map.empty ind_example_pages)) = Fin 83000 \<and>
   INDMoney_extract rate_83 Map.empty ind_example_pages = []"
  using map_single [OF ind_example_loop]
  by (simp add: ind_example_date INDMoney_extract_empty)

text \<open>
  Claim C3.  The table path of the Client Associates extractor copies \<open>pl_amount\<close> from
  column 10 of the row.  On the example the emitted holding has investment 2,000, market
  value 3,000 and \<open>pl_amount\<close> 500, while the difference is 1,000.
\<close>

theorem ca_table_pl_from_column:
  "length (CA_extract ca_example_pages) = 1 \<and>
   current_investment_value (hd (CA_extract ca_example_pages)) = Fin 2000 \<and>
   current_market_value (hd (CA_extract ca_example_pages)) = Fin 3000 \<and>
   pl_amount (hd (CA_extract ca_example_pages)) = Fin 500 \<and>
   fsub (current_market_value (hd (CA_extract ca_example_pages)))
        (current_investment_value (hd (CA_extract ca_example_pages))) = Fin 1000"
  using map_single [OF ca_example_values] by (simp add: fsub_def)



text \<open>
  Claim C8.  Every holding that the Kotak extractor emits with asset type \<open>Bonds\<close> has
  its market value equal to its investment value and a profit and loss of zero, in
  amount and in percentage.
\<close>

theorem kotak_bonds_fixed_value:
  assumes "h \<in> set (Kotak_extract pages)" and "asset_type h = str_of ''Bonds''"
  shows "current_market_value h = current_investment_value h \<and> pl_amount h = Fin 0 \<and>
         pl_percentage h = Fin 0"
proof -
  from Kotak_extract_from_row [OF assms(1)] obtain n row c rd pn pc idate
    where "Kotak_extract_holding_from_row n row c rd pn pc idate = Some h" by blast
  then show ?thesis using assms(2) by (rule Kotak_row_bonds)
qed

theorem kotak_bonds_fixed_value_witness:
  "hd (Kotak_extract kotak_example_pages) \<in> set (Kotak_extract kotak_example_pages) \<and>
   asset_type (hd (Kotak_extract kotak_example_pages)) = str_of ''Bonds'' \<and>
   current_market_value (hd (Kotak_extract kotak_example_pages)) =
     current_investment_value (hd (Kotak_extract kotak_example_pages)) \<and>
   pl_amount (hd (Kotak_extract kotak_example_pages)) = Fin 0 \<and>
   pl_percentage (hd (Kotak_extract kotak_example_pages)) = Fin 0"
proof -
  let ?h = "hd (Kotak_extract kotak_example_pages)"
  from map_single [OF kotak_example_values]
  have a: "?h \<in> set (Kotak_extract kotak_example_pages)"
    and b: "asset_type ?h = str_of ''Bonds''" by simp_all
  show ?thesis using kotak_bonds_fixed_value [OF a b] a b by simp
qed




end
